theory Spec2Isabelle
  imports Complex_Main
begin

section \<open>Order payment reconciliation of the storefront\<close>

text \<open>
  The development embeds the five server-side pieces of the payment core:
  the stock helper (\<open>lib/stockManagement\<close>: \<open>decrementStock\<close>, \<open>restoreStock\<close>),
  the verify-payment route, the gateway webhook route, the create-order route and the
  cash-on-delivery route. The database is a record of three tables, each a list of rows.
  Everything the handlers obtain from outside (the session user, the clock, the secrets,
  the HMAC of the crypto library, the JSON parser, the gateway SDK, and whether a database
  call reports an error) is a field of the environment record \<open>env\<close>.
  JavaScript numbers are modelled exactly: quantities and stock as \<open>int\<close>, money as
  \<open>rat\<close>; floating-point rounding and NaN are not modelled. A request body is taken as
  already parsed into its typed record (a missing string field is the empty string), except
  for the webhook, whose raw body is parsed by the handler. Row-level security policies
  are not part of the sources and are not modelled: a select sees the whole table. A
  database call either reports an error and writes nothing, or succeeds; a call that
  throws inside the stock loops (their inner \<open>catch\<close>) is not modelled separately.
\<close>

subsection \<open>Tables\<close>

record shipping_address =
  fullName :: string
  phone :: string
  address :: string
  city :: string
  state :: string
  pincode :: string

text \<open>The JSON blob \<open>payment_metadata\<close>: one constructor per shape a handler writes.\<close>

datatype payment_metadata =
    VerificationFailed (vf_razorpay_payment_id: string) (vf_error: string) (vf_timestamp: string)
  | Verified (verified_at: string) (verification_method: string)
  | Captured (captured_via: string) (captured_at: string) (cap_amount: rat)
      (cap_currency: string) (cap_method: string) (cap_bank: "string option")
      (cap_wallet: "string option") (cap_vpa: "string option") (cap_contact: string)
      (cap_email: string)
  | Failed (failed_via: string) (failed_at: string) (f_error_code: "string option")
      (f_error_description: "string option") (f_error_reason: "string option")

record order_row =
  ord_id :: string
  ord_user_id :: "string option"
  ord_total_amount :: rat
  ord_shipping_address :: shipping_address
  ord_notes :: "string option"
  ord_status :: "string option"
  ord_payment_status :: "string option"
  ord_payment_method :: "string option"
  ord_razorpay_order_id :: "string option"
  ord_razorpay_payment_id :: "string option"
  ord_razorpay_signature :: "string option"
  ord_payment_metadata :: "payment_metadata option"

record order_item_row =
  oi_order_id :: string
  oi_product_id :: string
  oi_product_name :: string
  oi_product_image :: string
  oi_quantity :: int
  oi_price :: rat

record product_row =
  prod_id :: string
  prod_name :: string
  prod_stock_quantity :: "int option"
  prod_in_stock :: "bool option"
  prod_updated_at :: string

record db =
  orders :: "order_row list"
  order_items :: "order_item_row list"
  products :: "product_row list"

subsection \<open>Environment\<close>

record user =
  user_id :: string
  user_email :: "string option"

record payment_entity =
  pay_id :: string
  pay_amount :: rat
  pay_currency :: string
  pay_status :: string
  pay_order_id :: string
  pay_method :: string
  pay_bank :: "string option"
  pay_wallet :: "string option"
  pay_vpa :: "string option"
  pay_card_id :: "string option"
  pay_error_code :: "string option"
  pay_error_description :: "string option"
  pay_error_reason :: "string option"
  pay_captured :: bool
  pay_contact :: string
  pay_email :: string

text \<open>\<open>RazorpayWebhookPayload\<close>: \<open>wp_payment\<close> is \<open>payload.payment?.entity\<close>.\<close>

record RazorpayWebhookPayload =
  wp_entity :: string
  wp_account_id :: string
  wp_event :: string
  wp_contains :: "string list"
  wp_payment :: "payment_entity option"
  wp_created_at :: int

record razorpay_order_request =
  rq_amount :: int
  rq_currency :: string
  rq_receipt :: string
  rq_note_user_id :: string
  rq_note_user_email :: string
  rq_note_customer_name :: string
  rq_note_customer_phone :: string

text \<open>The database calls of the handlers; \<open>db_error\<close> says which of them report an error.\<close>

datatype db_call =
    SelectOrder | UpdateOrder | InsertOrder
  | SelectOrderItems | InsertOrderItems
  | SelectProduct string | UpdateProduct string

record env =
  now :: string
  auth_user :: "user option"
  db_error :: "db_call \<Rightarrow> string option"
  new_order_id :: string
  RAZORPAY_KEY_ID :: string
  RAZORPAY_KEY_SECRET :: string
  RAZORPAY_WEBHOOK_SECRET :: "string option"
  hmac_sha256_hex :: "string \<Rightarrow> string \<Rightarrow> string"
  json_parse :: "string \<Rightarrow> RazorpayWebhookPayload option"
  razorpay_orders_create :: "razorpay_order_request \<Rightarrow> string option"

text \<open>\<open>.single()\<close>: exactly one row, otherwise an error.\<close>

definition single :: "'a list \<Rightarrow> 'a option" where
  "single rows = (case rows of [r] \<Rightarrow> Some r | _ \<Rightarrow> None)"

subsection \<open>Stock management\<close>

record OrderItem =
  product_id :: string
  quantity :: int

record StockUpdateResult =
  success :: bool
  errors :: "string list"
  updatedProducts :: "string list"

definition select_product :: "env \<Rightarrow> db \<Rightarrow> string \<Rightarrow> product_row option" where
  "select_product e d pid =
     (case db_error e (SelectProduct pid) of
        Some _ \<Rightarrow> None
      | None \<Rightarrow> single (filter (\<lambda>p. prod_id p = pid) (products d)))"

text \<open>\<open>.update(values).eq("id", pid)\<close> on the products table, when the store accepts it.\<close>

definition apply_stock :: "db \<Rightarrow> string \<Rightarrow> (product_row \<Rightarrow> product_row) \<Rightarrow> db" where
  "apply_stock d pid f =
     d\<lparr>products := map (\<lambda>p. if prod_id p = pid then f p else p) (products d)\<rparr>"

definition update_product ::
  "env \<Rightarrow> db \<Rightarrow> string \<Rightarrow> (product_row \<Rightarrow> product_row) \<Rightarrow> string option \<times> db" where
  "update_product e d pid f =
     (case db_error e (UpdateProduct pid) of
        Some msg \<Rightarrow> (Some msg, d)
      | None \<Rightarrow> (None, apply_stock d pid f))"

text \<open>\<open>product.stock_quantity || 0\<close>\<close>

definition current_stock :: "product_row \<Rightarrow> int" where
  "current_stock p = (case prod_stock_quantity p of None \<Rightarrow> 0 | Some n \<Rightarrow> n)"

text \<open>The columns both stock operations write: \<open>stock_quantity\<close>, \<open>in_stock\<close>, \<open>updated_at\<close>.\<close>

definition write_stock :: "env \<Rightarrow> int \<Rightarrow> bool \<Rightarrow> product_row \<Rightarrow> product_row" where
  "write_stock e newStock isInStock p =
     p\<lparr>prod_stock_quantity := Some newStock,
       prod_in_stock := Some isInStock,
       prod_updated_at := now e\<rparr>"

text \<open>The \<open>for\<close> loop of \<open>decrementStock\<close>, with its two accumulators.\<close>

fun decrementStock_loop ::
  "env \<Rightarrow> OrderItem list \<Rightarrow> db \<Rightarrow> string list \<Rightarrow> string list \<Rightarrow> db \<times> string list \<times> string list" where
  "decrementStock_loop e [] d errs upd = (d, errs, upd)"
| "decrementStock_loop e (item # items) d errs upd =
     (case select_product e d (product_id item) of
        None \<Rightarrow>
          decrementStock_loop e items d
            (errs @ [''Product '' @ product_id item @ '' not found'']) upd
      | Some product \<Rightarrow>
          (let currentStock = current_stock product;
               newStock = max 0 (currentStock - quantity item);
               isInStock = (newStock > 0)
           in case update_product e d (product_id item) (write_stock e newStock isInStock) of
                (Some msg, _) \<Rightarrow>
                  decrementStock_loop e items d
                    (errs @ [''Failed to update stock for '' @ prod_name product @ '': '' @ msg]) upd
              | (None, d') \<Rightarrow>
                  decrementStock_loop e items d' errs (upd @ [product_id item])))"

definition decrementStock :: "env \<Rightarrow> db \<Rightarrow> OrderItem list \<Rightarrow> StockUpdateResult \<times> db" where
  "decrementStock e d items =
     (case decrementStock_loop e items d [] [] of
        (d', errs, upd) \<Rightarrow>
          (\<lparr>success = (length errs = 0), errors = errs, updatedProducts = upd\<rparr>, d'))"

fun restoreStock_loop ::
  "env \<Rightarrow> OrderItem list \<Rightarrow> db \<Rightarrow> string list \<Rightarrow> string list \<Rightarrow> db \<times> string list \<times> string list" where
  "restoreStock_loop e [] d errs upd = (d, errs, upd)"
| "restoreStock_loop e (item # items) d errs upd =
     (case select_product e d (product_id item) of
        None \<Rightarrow>
          restoreStock_loop e items d
            (errs @ [''Product '' @ product_id item @ '' not found'']) upd
      | Some product \<Rightarrow>
          (let currentStock = current_stock product;
               newStock = currentStock + quantity item
           in case update_product e d (product_id item) (write_stock e newStock True) of
                (Some msg, _) \<Rightarrow>
                  restoreStock_loop e items d
                    (errs @ [''Failed to restore stock for '' @ prod_name product @ '': '' @ msg]) upd
              | (None, d') \<Rightarrow>
                  restoreStock_loop e items d' errs (upd @ [product_id item])))"

definition restoreStock :: "env \<Rightarrow> db \<Rightarrow> OrderItem list \<Rightarrow> StockUpdateResult \<times> db" where
  "restoreStock e d items =
     (case restoreStock_loop e items d [] [] of
        (d', errs, upd) \<Rightarrow>
          (\<lparr>success = (length errs = 0), errors = errs, updatedProducts = upd\<rparr>, d'))"

subsection \<open>HTTP responses\<close>

datatype response_body =
    ErrorBody string
  | VerifyOk (ok_message: string) (ok_order_id: string)
  | Received
  | ReceivedError string
  | CreateOrderOk (co_order_id: string) (co_razorpay_order_id: string) (co_razorpay_key_id: string)
      (co_amount: int) (co_currency: string) (co_prefill_name: string)
      (co_prefill_email: "string option") (co_prefill_contact: string)
  | CodOk (cod_order_id: string) (cod_payment_method: string) (cod_message: string)

record http_response =
  status :: nat
  body :: response_body

text \<open>
  A handler returns its response, the result of the stock adjustment when it ran one
  (the value the source logs after calling \<open>decrementStock\<close>; \<open>None\<close> when the call
  is not reached), and the database after the request.
\<close>

type_synonym handled = "http_response \<times> StockUpdateResult option \<times> db"

subsection \<open>Queries on orders and order items\<close>

definition select_order_by_id :: "env \<Rightarrow> db \<Rightarrow> string \<Rightarrow> order_row option" where
  "select_order_by_id e d oid =
     (case db_error e SelectOrder of
        Some _ \<Rightarrow> None
      | None \<Rightarrow> single (filter (\<lambda>r. ord_id r = oid) (orders d)))"

definition select_order_by_razorpay_order_id :: "env \<Rightarrow> db \<Rightarrow> string \<Rightarrow> order_row option" where
  "select_order_by_razorpay_order_id e d rid =
     (case db_error e SelectOrder of
        Some _ \<Rightarrow> None
      | None \<Rightarrow> single (filter (\<lambda>r. ord_razorpay_order_id r = Some rid) (orders d)))"

definition update_order_by_id ::
  "env \<Rightarrow> db \<Rightarrow> string \<Rightarrow> (order_row \<Rightarrow> order_row) \<Rightarrow> string option \<times> db" where
  "update_order_by_id e d oid f =
     (case db_error e UpdateOrder of
        Some msg \<Rightarrow> (Some msg, d)
      | None \<Rightarrow> (None, d\<lparr>orders := map (\<lambda>r. if ord_id r = oid then f r else r) (orders d)\<rparr>))"

definition select_order_items :: "env \<Rightarrow> db \<Rightarrow> string \<Rightarrow> order_item_row list option" where
  "select_order_items e d oid =
     (case db_error e SelectOrderItems of
        Some _ \<Rightarrow> None
      | None \<Rightarrow> Some (filter (\<lambda>i. oi_order_id i = oid) (order_items d)))"

definition to_OrderItem :: "order_item_row \<Rightarrow> OrderItem" where
  "to_OrderItem i = \<lparr>product_id = oi_product_id i, quantity = oi_quantity i\<rparr>"

subsection \<open>Verify payment\<close>

record VerifyPaymentRequest =
  razorpay_order_id :: string
  razorpay_payment_id :: string
  razorpay_signature :: string
  order_id :: string

definition mark_verification_failed :: "env \<Rightarrow> VerifyPaymentRequest \<Rightarrow> order_row \<Rightarrow> order_row" where
  "mark_verification_failed e req r =
     r\<lparr>ord_payment_status := Some ''failed'',
       ord_payment_metadata :=
         Some (VerificationFailed (razorpay_payment_id req) ''Signature verification failed'' (now e))\<rparr>"

definition mark_verified :: "env \<Rightarrow> VerifyPaymentRequest \<Rightarrow> order_row \<Rightarrow> order_row" where
  "mark_verified e req r =
     r\<lparr>ord_razorpay_payment_id := Some (razorpay_payment_id req),
       ord_razorpay_signature := Some (razorpay_signature req),
       ord_payment_status := Some ''paid'',
       ord_status := Some ''processing'',
       ord_payment_metadata := Some (Verified (now e) ''signature'')\<rparr>"

definition verify_payment_POST :: "env \<Rightarrow> db \<Rightarrow> VerifyPaymentRequest \<Rightarrow> handled" where
  "verify_payment_POST e d req =
     (case auth_user e of
        None \<Rightarrow> (\<lparr>status = 401, body = ErrorBody ''Unauthorized''\<rparr>, None, d)
      | Some usr \<Rightarrow>
          if razorpay_order_id req = [] \<or> razorpay_payment_id req = [] \<or>
             razorpay_signature req = [] \<or> order_id req = []
          then (\<lparr>status = 400, body = ErrorBody ''Missing required payment details''\<rparr>, None, d)
          else
            (case select_order_by_id e d (order_id req) of
               None \<Rightarrow> (\<lparr>status = 404, body = ErrorBody ''Order not found''\<rparr>, None, d)
             | Some order \<Rightarrow>
                 if ord_user_id order \<noteq> Some (user_id usr)
                 then (\<lparr>status = 403, body = ErrorBody ''Unauthorized access to order''\<rparr>, None, d)
                 else if ord_razorpay_order_id order \<noteq> Some (razorpay_order_id req)
                 then (\<lparr>status = 400, body = ErrorBody ''Order ID mismatch''\<rparr>, None, d)
                 else if ord_payment_status order = Some ''paid''
                 then (\<lparr>status = 200,
                         body = VerifyOk ''Payment already verified'' (order_id req)\<rparr>, None, d)
                 else
                   (let expectedSignature =
                          hmac_sha256_hex e (RAZORPAY_KEY_SECRET e)
                            (razorpay_order_id req @ ''|'' @ razorpay_payment_id req);
                        isValidSignature = (expectedSignature = razorpay_signature req)
                    in if \<not> isValidSignature
                       then (\<lparr>status = 400, body = ErrorBody ''Payment verification failed''\<rparr>,
                             None,
                             snd (update_order_by_id e d (order_id req)
                                    (mark_verification_failed e req)))
                       else
                         (case update_order_by_id e d (order_id req) (mark_verified e req) of
                            (Some updateError, _) \<Rightarrow>
                              (\<lparr>status = 500,
                                body = ErrorBody ''Failed to update order status''\<rparr>, None, d)
                          | (None, d1) \<Rightarrow>
                              (let ok = \<lparr>status = 200,
                                         body = VerifyOk ''Payment verified successfully''
                                                  (order_id req)\<rparr>
                               in case select_order_items e d1 (order_id req) of
                                    None \<Rightarrow> (ok, None, d1)
                                  | Some orderItems \<Rightarrow>
                                      if length orderItems > 0
                                      then (case decrementStock e d1 (map to_OrderItem orderItems) of
                                              (stockResult, d2) \<Rightarrow> (ok, Some stockResult, d2))
                                      else (ok, None, d1))))))"

subsection \<open>Webhook\<close>

record webhook_request =
  raw_body :: string
  x_razorpay_signature :: "string option"

text \<open>\<open>crypto.timingSafeEqual\<close> throws on buffers of different length (\<open>None\<close>).\<close>

definition timingSafeEqual :: "string \<Rightarrow> string \<Rightarrow> bool option" where
  "timingSafeEqual a b = (if length a \<noteq> length b then None else Some (a = b))"

definition verifyWebhookSignature :: "env \<Rightarrow> string \<Rightarrow> string \<Rightarrow> string \<Rightarrow> bool" where
  "verifyWebhookSignature e payload signature secret =
     (let expectedSignature = hmac_sha256_hex e secret payload
      in case timingSafeEqual expectedSignature signature of
           None \<Rightarrow> False
         | Some b \<Rightarrow> b)"

definition mark_captured :: "env \<Rightarrow> payment_entity \<Rightarrow> order_row \<Rightarrow> order_row" where
  "mark_captured e payment r =
     r\<lparr>ord_razorpay_payment_id := Some (pay_id payment),
       ord_payment_status := Some ''paid'',
       ord_status := Some ''processing'',
       ord_payment_method :=
         Some (if pay_method payment = [] then ''razorpay'' else pay_method payment),
       ord_payment_metadata :=
         Some (Captured ''webhook'' (now e) (pay_amount payment) (pay_currency payment)
                 (pay_method payment) (pay_bank payment) (pay_wallet payment)
                 (pay_vpa payment) (pay_contact payment) (pay_email payment))\<rparr>"

definition mark_failed :: "env \<Rightarrow> payment_entity \<Rightarrow> order_row \<Rightarrow> order_row" where
  "mark_failed e payment r =
     r\<lparr>ord_payment_status := Some ''failed'',
       ord_payment_metadata :=
         Some (Failed ''webhook'' (now e) (pay_error_code payment)
                 (pay_error_description payment) (pay_error_reason payment))\<rparr>"

definition handlePaymentCaptured ::
  "env \<Rightarrow> db \<Rightarrow> RazorpayWebhookPayload \<Rightarrow> StockUpdateResult option \<times> db" where
  "handlePaymentCaptured e d payload =
     (case wp_payment payload of
        None \<Rightarrow> (None, d)
      | Some payment \<Rightarrow>
          (case select_order_by_razorpay_order_id e d (pay_order_id payment) of
             None \<Rightarrow> (None, d)
           | Some order \<Rightarrow>
               if ord_payment_status order = Some ''paid'' then (None, d)
               else
                 (case update_order_by_id e d (ord_id order) (mark_captured e payment) of
                    (Some updateError, _) \<Rightarrow> (None, d)
                  | (None, d1) \<Rightarrow>
                      (case select_order_items e d1 (ord_id order) of
                         None \<Rightarrow> (None, d1)
                       | Some orderItems \<Rightarrow>
                           if length orderItems > 0
                           then (case decrementStock e d1 (map to_OrderItem orderItems) of
                                   (stockResult, d2) \<Rightarrow> (Some stockResult, d2))
                           else (None, d1)))))"

definition handlePaymentFailed :: "env \<Rightarrow> db \<Rightarrow> RazorpayWebhookPayload \<Rightarrow> db" where
  "handlePaymentFailed e d payload =
     (case wp_payment payload of
        None \<Rightarrow> d
      | Some payment \<Rightarrow>
          (case select_order_by_razorpay_order_id e d (pay_order_id payment) of
             None \<Rightarrow> d
           | Some order \<Rightarrow>
               if ord_payment_status order = Some ''paid'' then d
               else snd (update_order_by_id e d (ord_id order) (mark_failed e payment))))"

text \<open>
  The route's \<open>try\<close>/\<open>catch\<close> turns every exception after the signature check into a 200
  with an error note; in the model the exception is \<open>JSON.parse\<close> failing (\<open>None\<close>).
\<close>

definition webhook_POST :: "env \<Rightarrow> db \<Rightarrow> webhook_request \<Rightarrow> handled" where
  "webhook_POST e d req =
     (let rawBody = raw_body req in
      case x_razorpay_signature req of
        None \<Rightarrow> (\<lparr>status = 400, body = ErrorBody ''Missing signature''\<rparr>, None, d)
      | Some signature \<Rightarrow>
          if signature = []
          then (\<lparr>status = 400, body = ErrorBody ''Missing signature''\<rparr>, None, d)
          else
            (case RAZORPAY_WEBHOOK_SECRET e of
               None \<Rightarrow> (\<lparr>status = 500, body = ErrorBody ''Webhook not configured''\<rparr>, None, d)
             | Some webhookSecret \<Rightarrow>
                 if webhookSecret = []
                 then (\<lparr>status = 500, body = ErrorBody ''Webhook not configured''\<rparr>, None, d)
                 else if \<not> verifyWebhookSignature e rawBody signature webhookSecret
                 then (\<lparr>status = 400, body = ErrorBody ''Invalid signature''\<rparr>, None, d)
                 else
                   (case json_parse e rawBody of
                      None \<Rightarrow>
                        (\<lparr>status = 200, body = ReceivedError ''Processing error''\<rparr>, None, d)
                    | Some payload \<Rightarrow>
                        if wp_event payload = ''payment.captured'' \<or>
                           wp_event payload = ''order.paid''
                        then (case handlePaymentCaptured e d payload of
                                (stockResult, d') \<Rightarrow>
                                  (\<lparr>status = 200, body = Received\<rparr>, stockResult, d'))
                        else if wp_event payload = ''payment.failed''
                        then (\<lparr>status = 200, body = Received\<rparr>, None,
                              handlePaymentFailed e d payload)
                        else (\<lparr>status = 200, body = Received\<rparr>, None, d))))"

subsection \<open>Order creation: gateway and cash on delivery\<close>

record CartItem =
  ci_product_id :: string
  ci_product_name :: string
  ci_product_image :: string
  ci_quantity :: int
  ci_price :: rat

text \<open>\<open>CreateOrderRequest\<close> and \<open>CreateCODOrderRequest\<close> have the same fields.\<close>

record CreateOrderRequest =
  req_items :: "CartItem list"
  req_total_amount :: rat
  req_shipping_address :: "shipping_address option"
  req_notes :: "string option"

definition notes_or_null :: "string option \<Rightarrow> string option" where
  "notes_or_null n = (case n of None \<Rightarrow> None | Some t \<Rightarrow> if t = [] then None else Some t)"

text \<open>\<open>.insert(row).select().single()\<close>: the store assigns the id.\<close>

definition insert_order :: "env \<Rightarrow> db \<Rightarrow> order_row \<Rightarrow> order_row option \<times> db" where
  "insert_order e d row =
     (case db_error e InsertOrder of
        Some _ \<Rightarrow> (None, d)
      | None \<Rightarrow>
          (let r = row\<lparr>ord_id := new_order_id e\<rparr>
           in (Some r, d\<lparr>orders := orders d @ [r]\<rparr>)))"

definition insert_order_items :: "env \<Rightarrow> db \<Rightarrow> order_item_row list \<Rightarrow> string option \<times> db" where
  "insert_order_items e d rows =
     (case db_error e InsertOrderItems of
        Some msg \<Rightarrow> (Some msg, d)
      | None \<Rightarrow> (None, d\<lparr>order_items := order_items d @ rows\<rparr>))"

definition to_order_item_row :: "string \<Rightarrow> CartItem \<Rightarrow> order_item_row" where
  "to_order_item_row oid item =
     \<lparr>oi_order_id = oid, oi_product_id = ci_product_id item,
      oi_product_name = ci_product_name item, oi_product_image = ci_product_image item,
      oi_quantity = ci_quantity item, oi_price = ci_price item\<rparr>"

definition cart_to_OrderItem :: "CartItem \<Rightarrow> OrderItem" where
  "cart_to_OrderItem item = \<lparr>product_id = ci_product_id item, quantity = ci_quantity item\<rparr>"

definition new_order ::
  "user \<Rightarrow> CreateOrderRequest \<Rightarrow> shipping_address \<Rightarrow> string \<Rightarrow> string option \<Rightarrow> order_row" where
  "new_order usr req addr method rzp =
     \<lparr>ord_id = [], ord_user_id = Some (user_id usr),
      ord_total_amount = req_total_amount req, ord_shipping_address = addr,
      ord_notes = notes_or_null (req_notes req),
      ord_status = Some ''pending'', ord_payment_status = Some ''pending'',
      ord_payment_method = Some method, ord_razorpay_order_id = rzp,
      ord_razorpay_payment_id = None, ord_razorpay_signature = None,
      ord_payment_metadata = None\<rparr>"

text \<open>The argument of \<open>razorpay.orders.create\<close>.\<close>

definition gateway_order_request ::
  "env \<Rightarrow> user \<Rightarrow> shipping_address \<Rightarrow> int \<Rightarrow> razorpay_order_request" where
  "gateway_order_request e usr addr amountInPaise =
     \<lparr>rq_amount = amountInPaise, rq_currency = ''INR'',
      rq_receipt = ''temp_'' @ now e,
      rq_note_user_id = user_id usr,
      rq_note_user_email = (case user_email usr of None \<Rightarrow> [] | Some m \<Rightarrow> m),
      rq_note_customer_name = fullName addr,
      rq_note_customer_phone = phone addr\<rparr>"

definition create_order_POST :: "env \<Rightarrow> db \<Rightarrow> CreateOrderRequest \<Rightarrow> handled" where
  "create_order_POST e d req =
     (case auth_user e of
        None \<Rightarrow>
          (\<lparr>status = 401, body = ErrorBody ''Unauthorized. Please sign in to continue.''\<rparr>,
           None, d)
      | Some usr \<Rightarrow>
          if req_items req = []
          then (\<lparr>status = 400, body = ErrorBody ''Cart is empty''\<rparr>, None, d)
          else if req_total_amount req \<le> 0
          then (\<lparr>status = 400, body = ErrorBody ''Invalid total amount''\<rparr>, None, d)
          else
            (case req_shipping_address req of
               None \<Rightarrow>
                 (\<lparr>status = 400, body = ErrorBody ''Shipping address is required''\<rparr>, None, d)
             | Some addr \<Rightarrow>
                 if fullName addr = [] \<or> phone addr = []
                 then (\<lparr>status = 400, body = ErrorBody ''Shipping address is required''\<rparr>,
                       None, d)
                 else
                   (let amountInPaise = round (req_total_amount req * 100)
                    in case razorpay_orders_create e
                              (gateway_order_request e usr addr amountInPaise) of
                         None \<Rightarrow>
                           (\<lparr>status = 500, body = ErrorBody ''Internal server error''\<rparr>,
                            None, d)
                       | Some razorpayOrderId \<Rightarrow>
                           (case insert_order e d
                                   (new_order usr req addr ''razorpay'' (Some razorpayOrderId)) of
                              (None, _) \<Rightarrow>
                                (\<lparr>status = 500, body = ErrorBody ''Failed to create order''\<rparr>,
                                 None, d)
                            | (Some order, d1) \<Rightarrow>
                                (let orderItems =
                                       map (to_order_item_row (ord_id order)) (req_items req)
                                 in (\<lparr>status = 200,
                                       body = CreateOrderOk (ord_id order) razorpayOrderId
                                                (RAZORPAY_KEY_ID e) amountInPaise ''INR''
                                                (fullName addr) (user_email usr) (phone addr)\<rparr>,
                                     None,
                                     snd (insert_order_items e d1 orderItems)))))))"

text \<open>
  The limit message of the source prints the rupee sign and the localised number; the
  model spells it in ASCII.
\<close>

definition COD_LIMIT :: rat where
  "COD_LIMIT = 50000"

definition cod_POST :: "env \<Rightarrow> db \<Rightarrow> CreateOrderRequest \<Rightarrow> handled" where
  "cod_POST e d req =
     (case auth_user e of
        None \<Rightarrow>
          (\<lparr>status = 401, body = ErrorBody ''Unauthorized. Please sign in to continue.''\<rparr>,
           None, d)
      | Some usr \<Rightarrow>
          if req_items req = []
          then (\<lparr>status = 400, body = ErrorBody ''Cart is empty''\<rparr>, None, d)
          else if req_total_amount req \<le> 0
          then (\<lparr>status = 400, body = ErrorBody ''Invalid total amount''\<rparr>, None, d)
          else
            (case req_shipping_address req of
               None \<Rightarrow>
                 (\<lparr>status = 400, body = ErrorBody ''Shipping address is required''\<rparr>, None, d)
             | Some addr \<Rightarrow>
                 if fullName addr = [] \<or> phone addr = []
                 then (\<lparr>status = 400, body = ErrorBody ''Shipping address is required''\<rparr>,
                       None, d)
                 else if req_total_amount req > COD_LIMIT
                 then (\<lparr>status = 400,
                         body = ErrorBody
                           ''Cash on Delivery is available only for orders up to Rs 50,000''\<rparr>,
                       None, d)
                 else
                   (case insert_order e d (new_order usr req addr ''cod'' None) of
                      (None, _) \<Rightarrow>
                        (\<lparr>status = 500,
                          body = ErrorBody
                            (''Failed to create order: '' @
                             (case db_error e InsertOrder of
                                None \<Rightarrow> ''Unknown error''
                              | Some msg \<Rightarrow> if msg = [] then ''Unknown error'' else msg))\<rparr>,
                         None, d)
                    | (Some order, d1) \<Rightarrow>
                        (let orderId = ord_id order;
                             orderItems = map (to_order_item_row orderId) (req_items req);
                             d2 = snd (insert_order_items e d1 orderItems)
                         in case decrementStock e d2 (map cart_to_OrderItem (req_items req)) of
                              (stockResult, d3) \<Rightarrow>
                                (\<lparr>status = 200,
                                  body = CodOk orderId ''cod''
                                           ''Order placed successfully! Pay on delivery.''\<rparr>,
                                 Some stockResult, d3)))))"

subsection \<open>Auxiliary notions for the statements\<close>

text \<open>A product row whose flag is derived from a non-negative stock count.\<close>

definition stock_consistent :: "product_row \<Rightarrow> bool" where
  "stock_consistent p =
     (case prod_stock_quantity p of
        None \<Rightarrow> False
      | Some n \<Rightarrow> 0 \<le> n \<and> prod_in_stock p = Some (0 < n))"

text \<open>
  Steps 1 to 4 of the verifier: a session user, all four fields present, the order found,
  owned by the caller, and stored under the submitted gateway order id.
\<close>

definition passes_gates :: "env \<Rightarrow> db \<Rightarrow> VerifyPaymentRequest \<Rightarrow> order_row \<Rightarrow> bool" where
  "passes_gates e d req order =
     ((case auth_user e of
         None \<Rightarrow> False
       | Some usr \<Rightarrow> ord_user_id order = Some (user_id usr))
      \<and> razorpay_order_id req \<noteq> [] \<and> razorpay_payment_id req \<noteq> []
      \<and> razorpay_signature req \<noteq> [] \<and> order_id req \<noteq> []
      \<and> select_order_by_id e d (order_id req) = Some order
      \<and> ord_razorpay_order_id order = Some (razorpay_order_id req))"

text \<open>The signature the verifier recomputes.\<close>

definition expected_signature :: "env \<Rightarrow> VerifyPaymentRequest \<Rightarrow> string" where
  "expected_signature e req =
     hmac_sha256_hex e (RAZORPAY_KEY_SECRET e)
       (razorpay_order_id req @ ''|'' @ razorpay_payment_id req)"

text \<open>The rows of the orders table stored under one id.\<close>

definition rows_with_id :: "db \<Rightarrow> string \<Rightarrow> order_row list" where
  "rows_with_id d oid = filter (\<lambda>r. ord_id r = oid) (orders d)"

subsection \<open>A concrete shop for the examples\<close>

text \<open>
  The examples run the handlers on one order (two units of product P, stock 5) and a
  second product Q that is sold out. \<open>demo_hmac\<close> is a stand-in keyed digest and
  \<open>demo_parse\<close> a parser that knows four bodies; the general theorems hold for every
  environment.
\<close>

definition demo_no_error :: "db_call \<Rightarrow> string option" where
  "demo_no_error c = None"

definition demo_hmac :: "string \<Rightarrow> string \<Rightarrow> string" where
  "demo_hmac key msg = key @ ''#'' @ msg"

definition demo_payment :: payment_entity where
  "demo_payment =
     \<lparr>pay_id = ''pay_1'', pay_amount = 250000, pay_currency = ''INR'', pay_status = ''captured'',
      pay_order_id = ''order_R1'', pay_method = ''upi'', pay_bank = None, pay_wallet = None,
      pay_vpa = Some ''a@upi'', pay_card_id = None, pay_error_code = Some ''BAD_REQUEST_ERROR'',
      pay_error_description = Some ''Payment failed'', pay_error_reason = Some ''payment_failed'',
      pay_captured = True, pay_contact = ''+911234567890'', pay_email = ''a@example.com''\<rparr>"

definition demo_payload :: "string \<Rightarrow> payment_entity option \<Rightarrow> RazorpayWebhookPayload" where
  "demo_payload ev p =
     \<lparr>wp_entity = ''event'', wp_account_id = ''acc_1'', wp_event = ev,
      wp_contains = [''payment''], wp_payment = p, wp_created_at = 1736244000\<rparr>"

definition demo_parse :: "string \<Rightarrow> RazorpayWebhookPayload option" where
  "demo_parse s =
     (if s = ''captured'' then Some (demo_payload ''payment.captured'' (Some demo_payment))
      else if s = ''failed'' then Some (demo_payload ''payment.failed'' (Some demo_payment))
      else if s = ''refund'' then Some (demo_payload ''refund.created'' None)
      else if s = ''unknown-order''
        then Some (demo_payload ''payment.captured''
                     (Some (demo_payment\<lparr>pay_order_id := ''order_R9''\<rparr>)))
      else None)"

definition demo_gateway :: "razorpay_order_request \<Rightarrow> string option" where
  "demo_gateway r = Some ''order_R2''"

definition demo_gateway_down :: "razorpay_order_request \<Rightarrow> string option" where
  "demo_gateway_down r = None"

definition demo_user :: user where
  "demo_user = \<lparr>user_id = ''user-1'', user_email = Some ''a@example.com''\<rparr>"

definition demo_env :: env where
  "demo_env =
     \<lparr>now = ''2025-01-07T10:00:00.000Z'', auth_user = Some demo_user,
      db_error = demo_no_error, new_order_id = ''order-2'',
      RAZORPAY_KEY_ID = ''rzp_test_key'', RAZORPAY_KEY_SECRET = ''key-secret'',
      RAZORPAY_WEBHOOK_SECRET = Some ''hook-secret'', hmac_sha256_hex = demo_hmac,
      json_parse = demo_parse, razorpay_orders_create = demo_gateway\<rparr>"

definition demo_address :: shipping_address where
  "demo_address =
     \<lparr>fullName = ''A Buyer'', phone = ''1234567890'', address = ''1 Main Road'',
      city = ''Jaipur'', state = ''Rajasthan'', pincode = ''302001''\<rparr>"

definition demo_order :: order_row where
  "demo_order =
     \<lparr>ord_id = ''order-1'', ord_user_id = Some ''user-1'', ord_total_amount = 2500,
      ord_shipping_address = demo_address, ord_notes = None,
      ord_status = Some ''pending'', ord_payment_status = Some ''pending'',
      ord_payment_method = Some ''razorpay'', ord_razorpay_order_id = Some ''order_R1'',
      ord_razorpay_payment_id = None, ord_razorpay_signature = None,
      ord_payment_metadata = None\<rparr>"

definition demo_item_row :: order_item_row where
  "demo_item_row =
     \<lparr>oi_order_id = ''order-1'', oi_product_id = ''prod-P'', oi_product_name = ''Ring'',
      oi_product_image = ''ring.jpg'', oi_quantity = 2, oi_price = 1250\<rparr>"

definition demo_P :: product_row where
  "demo_P =
     \<lparr>prod_id = ''prod-P'', prod_name = ''Ring'', prod_stock_quantity = Some 5,
      prod_in_stock = Some True, prod_updated_at = ''2025-01-01T00:00:00.000Z''\<rparr>"

definition demo_Q :: product_row where
  "demo_Q =
     \<lparr>prod_id = ''prod-Q'', prod_name = ''Pendant'', prod_stock_quantity = Some 0,
      prod_in_stock = Some False, prod_updated_at = ''2025-01-01T00:00:00.000Z''\<rparr>"

definition demo_db :: db where
  "demo_db = \<lparr>orders = [demo_order], order_items = [demo_item_row], products = [demo_P, demo_Q]\<rparr>"

definition demo_verify_request :: VerifyPaymentRequest where
  "demo_verify_request =
     \<lparr>razorpay_order_id = ''order_R1'', razorpay_payment_id = ''pay_1'',
      razorpay_signature = ''key-secret#order_R1|pay_1'', order_id = ''order-1''\<rparr>"

definition demo_tampered_request :: VerifyPaymentRequest where
  "demo_tampered_request = demo_verify_request\<lparr>razorpay_signature := ''forged''\<rparr>"

subsection \<open>Auxiliary notions for the webhook and for sequences of calls\<close>

definition header_present :: "webhook_request \<Rightarrow> bool" where
  "header_present req = (case x_razorpay_signature req of None \<Rightarrow> False | Some sg \<Rightarrow> sg \<noteq> [])"

definition secret_configured :: "env \<Rightarrow> bool" where
  "secret_configured e = (case RAZORPAY_WEBHOOK_SECRET e of None \<Rightarrow> False | Some k \<Rightarrow> k \<noteq> [])"

text \<open>The request passes the signature check of the webhook route.\<close>

definition signature_accepted :: "env \<Rightarrow> webhook_request \<Rightarrow> bool" where
  "signature_accepted e req =
     (case x_razorpay_signature req of
        None \<Rightarrow> False
      | Some sg \<Rightarrow>
          sg \<noteq> [] \<and>
          (case RAZORPAY_WEBHOOK_SECRET e of
             None \<Rightarrow> False
           | Some k \<Rightarrow> k \<noteq> [] \<and> verifyWebhookSignature e (raw_body req) sg k))"

text \<open>A validly signed \<open>payment.captured\<close> or \<open>order.paid\<close> event carrying the payment \<open>p\<close>.\<close>

definition captured_event :: "env \<Rightarrow> webhook_request \<Rightarrow> payment_entity \<Rightarrow> bool" where
  "captured_event e req p =
     (signature_accepted e req \<and>
      (case json_parse e (raw_body req) of
         None \<Rightarrow> False
       | Some payload \<Rightarrow>
           (wp_event payload = ''payment.captured'' \<or> wp_event payload = ''order.paid'')
           \<and> wp_payment payload = Some p))"

text \<open>Calls of the two writers, run one after the other.\<close>

datatype call = VerifyCall env VerifyPaymentRequest | WebhookCall env webhook_request

fun run_call :: "call \<Rightarrow> db \<Rightarrow> db" where
  "run_call (VerifyCall e req) d = snd (snd (verify_payment_POST e d req))"
| "run_call (WebhookCall e req) d = snd (snd (webhook_POST e d req))"

fun run_calls :: "call list \<Rightarrow> db \<Rightarrow> db" where
  "run_calls [] d = d"
| "run_calls (c # cs) d = run_calls cs (run_call c d)"

text \<open>A row keeps its id, and is left as it is when it was paid.\<close>

definition keeps_paid :: "order_row \<Rightarrow> order_row \<Rightarrow> bool" where
  "keeps_paid r r' = (ord_id r' = ord_id r \<and> (ord_payment_status r = Some ''paid'' \<longrightarrow> r' = r))"

text \<open>The stock columns of the products table, without the timestamp.\<close>

definition stock_columns :: "product_row \<Rightarrow> string \<times> int option \<times> bool option" where
  "stock_columns p = (prod_id p, prod_stock_quantity p, prod_in_stock p)"

definition stock_view :: "db \<Rightarrow> (string \<times> int option \<times> bool option) list" where
  "stock_view d = map stock_columns (products d)"

text \<open>The payment columns of the orders table.\<close>

definition payment_view :: "db \<Rightarrow> (string \<times> string option \<times> string option) list" where
  "payment_view d = map (\<lambda>r. (ord_id r, ord_payment_status r, ord_status r)) (orders d)"

definition demo_webhook_request :: "string \<Rightarrow> webhook_request" where
  "demo_webhook_request b = \<lparr>raw_body = b, x_razorpay_signature = Some (''hook-secret#'' @ b)\<rparr>"

definition demo_paid_order :: order_row where
  "demo_paid_order =
     demo_order\<lparr>ord_razorpay_payment_id := Some ''pay_1'',
                ord_razorpay_signature := Some ''key-secret#order_R1|pay_1'',
                ord_payment_status := Some ''paid'',
                ord_status := Some ''processing'',
                ord_payment_metadata :=
                  Some (Verified ''2025-01-07T10:00:00.000Z'' ''signature'')\<rparr>"

definition demo_paid_db :: db where
  "demo_paid_db = demo_db\<lparr>orders := [demo_paid_order]\<rparr>"

definition demo_calls :: "call list" where
  "demo_calls =
     [WebhookCall demo_env (demo_webhook_request ''failed''),
      VerifyCall demo_env demo_tampered_request,
      WebhookCall demo_env (demo_webhook_request ''captured'')]"

subsection \<open>Auxiliary notions for order creation\<close>

text \<open>The three validation checks shared by the create-order and the COD route.\<close>

definition passes_validation :: "CreateOrderRequest \<Rightarrow> bool" where
  "passes_validation req =
     (req_items req \<noteq> [] \<and> 0 < req_total_amount req \<and>
      (case req_shipping_address req of
         None \<Rightarrow> False
       | Some addr \<Rightarrow> fullName addr \<noteq> [] \<and> phone addr \<noteq> []))"

definition demo_items_error :: "db_call \<Rightarrow> string option" where
  "demo_items_error c = (if c = InsertOrderItems then Some ''insert failed'' else None)"

definition demo_cart_item :: CartItem where
  "demo_cart_item =
     \<lparr>ci_product_id = ''prod-P'', ci_product_name = ''Ring'', ci_product_image = ''ring.jpg'',
      ci_quantity = 2, ci_price = 1250\<rparr>"

definition demo_create_request :: CreateOrderRequest where
  "demo_create_request =
     \<lparr>req_items = [demo_cart_item], req_total_amount = 2500,
      req_shipping_address = Some demo_address, req_notes = None\<rparr>"

definition demo_new_order :: "string \<Rightarrow> string option \<Rightarrow> order_row" where
  "demo_new_order method rzp =
     \<lparr>ord_id = ''order-2'', ord_user_id = Some ''user-1'', ord_total_amount = 2500,
      ord_shipping_address = demo_address, ord_notes = None,
      ord_status = Some ''pending'', ord_payment_status = Some ''pending'',
      ord_payment_method = Some method, ord_razorpay_order_id = rzp,
      ord_razorpay_payment_id = None, ord_razorpay_signature = None,
      ord_payment_metadata = None\<rparr>"

section \<open>Properties\<close>

subsection \<open>Stock helper\<close>

lemma single_eq_Some: "single xs = Some r \<longleftrightarrow> xs = [r]"
  by (auto simp: single_def split: list.splits)

lemma select_product_Some:
  "select_product e d pid = Some p \<Longrightarrow> p \<in> set (products d) \<and> prod_id p = pid"
proof -
  assume "select_product e d pid = Some p"
  then have "filter (\<lambda>r. prod_id r = pid) (products d) = [p]"
    by (simp add: select_product_def single_eq_Some split: option.splits)
  then have "p \<in> set (filter (\<lambda>r. prod_id r = pid) (products d))" by simp
  then show ?thesis by simp
qed

lemma decrementStock_loop_Cons:
  "decrementStock_loop e (item # items) d errs upd =
     (case select_product e d (product_id item) of
        None \<Rightarrow> decrementStock_loop e items d
                  (errs @ [''Product '' @ product_id item @ '' not found'']) upd
      | Some product \<Rightarrow>
          (case db_error e (UpdateProduct (product_id item)) of
             Some msg \<Rightarrow> decrementStock_loop e items d
                  (errs @ [''Failed to update stock for '' @ prod_name product @ '': '' @ msg]) upd
           | None \<Rightarrow> decrementStock_loop e items
                  (apply_stock d (product_id item)
                     (write_stock e (max 0 (current_stock product - quantity item))
                        (0 < max 0 (current_stock product - quantity item))))
                  errs (upd @ [product_id item])))"
  by (simp add: update_product_def Let_def split: option.splits)

lemma restoreStock_loop_Cons:
  "restoreStock_loop e (item # items) d errs upd =
     (case select_product e d (product_id item) of
        None \<Rightarrow> restoreStock_loop e items d
                  (errs @ [''Product '' @ product_id item @ '' not found'']) upd
      | Some product \<Rightarrow>
          (case db_error e (UpdateProduct (product_id item)) of
             Some msg \<Rightarrow> restoreStock_loop e items d
                  (errs @ [''Failed to restore stock for '' @ prod_name product @ '': '' @ msg]) upd
           | None \<Rightarrow> restoreStock_loop e items
                  (apply_stock d (product_id item)
                     (write_stock e (current_stock product + quantity item) True))
                  errs (upd @ [product_id item])))"
  by (simp add: update_product_def Let_def split: option.splits)

lemma decrementStock_loop_invariant:
  assumes "I d upd"
    and "\<And>d upd item product. I d upd \<Longrightarrow> item \<in> set items \<Longrightarrow>
           select_product e d (product_id item) = Some product \<Longrightarrow>
           I (apply_stock d (product_id item)
                (write_stock e (max 0 (current_stock product - quantity item))
                   (0 < max 0 (current_stock product - quantity item))))
             (upd @ [product_id item])"
  shows "case decrementStock_loop e items d errs upd of (d', errs', upd') \<Rightarrow> I d' upd'"
  using assms
proof (induction items arbitrary: d errs upd)
  case Nil
  from Nil(1) show ?case by simp
next
  case (Cons item items)
  have step: "I (apply_stock d (product_id it)
                (write_stock e (max 0 (current_stock product - quantity it))
                   (0 < max 0 (current_stock product - quantity it))))
             (upd @ [product_id it])"
    if "I d upd" "it \<in> set items" "select_product e d (product_id it) = Some product"
    for d upd it product
    by (rule Cons.prems(2)[OF that(1) _ that(3)]) (simp add: that(2))
  note IH = Cons.IH[OF _ step]
  show ?case
  proof (cases "select_product e d (product_id item)")
    case None
    have "case decrementStock_loop e items d (errs @ [''Product '' @ product_id item @ '' not found'']) upd of (d', errs', upd') \<Rightarrow> I d' upd'"
      by (rule IH[OF Cons.prems(1)])
    then show ?thesis
      unfolding decrementStock_loop_Cons None by simp
  next
    case (Some product)
    have I1: "I (apply_stock d (product_id item)
                (write_stock e (max 0 (current_stock product - quantity item))
                   (0 < max 0 (current_stock product - quantity item))))
             (upd @ [product_id item])"
      by (rule Cons.prems(2)[OF Cons.prems(1) _ Some]) simp
    show ?thesis
    proof (cases "db_error e (UpdateProduct (product_id item))")
      case None
      show ?thesis
        unfolding decrementStock_loop_Cons Some None option.case
        by (rule IH[OF I1])
    next
      case (Some msg)
      show ?thesis
        unfolding decrementStock_loop_Cons \<open>select_product e d (product_id item) = Some product\<close> Some option.case
        by (rule IH[OF Cons.prems(1)])
    qed
  qed
qed

lemma restoreStock_loop_invariant:
  assumes "I d upd"
    and "\<And>d upd item product. I d upd \<Longrightarrow> item \<in> set items \<Longrightarrow>
           select_product e d (product_id item) = Some product \<Longrightarrow>
           I (apply_stock d (product_id item)
                (write_stock e (current_stock product + quantity item) True))
             (upd @ [product_id item])"
  shows "case restoreStock_loop e items d errs upd of (d', errs', upd') \<Rightarrow> I d' upd'"
  using assms
proof (induction items arbitrary: d errs upd)
  case Nil
  from Nil(1) show ?case by simp
next
  case (Cons item items)
  have step: "I (apply_stock d (product_id it)
                (write_stock e (current_stock product + quantity it) True))
             (upd @ [product_id it])"
    if "I d upd" "it \<in> set items" "select_product e d (product_id it) = Some product"
    for d upd it product
    by (rule Cons.prems(2)[OF that(1) _ that(3)]) (simp add: that(2))
  note IH = Cons.IH[OF _ step]
  show ?case
  proof (cases "select_product e d (product_id item)")
    case None
    have "case restoreStock_loop e items d (errs @ [''Product '' @ product_id item @ '' not found'']) upd of (d', errs', upd') \<Rightarrow> I d' upd'"
      by (rule IH[OF Cons.prems(1)])
    then show ?thesis
      unfolding restoreStock_loop_Cons None by simp
  next
    case (Some product)
    have I1: "I (apply_stock d (product_id item)
                (write_stock e (current_stock product + quantity item) True))
             (upd @ [product_id item])"
      by (rule Cons.prems(2)[OF Cons.prems(1) _ Some]) simp
    show ?thesis
    proof (cases "db_error e (UpdateProduct (product_id item))")
      case None
      show ?thesis
        unfolding restoreStock_loop_Cons Some None option.case
        by (rule IH[OF I1])
    next
      case (Some msg)
      show ?thesis
        unfolding restoreStock_loop_Cons \<open>select_product e d (product_id item) = Some product\<close> Some option.case
        by (rule IH[OF Cons.prems(1)])
    qed
  qed
qed

lemma decrementStock_consistent:
  "\<forall>p \<in> set (products (snd (decrementStock e d items))).
     prod_id p \<in> set (updatedProducts (fst (decrementStock e d items))) \<longrightarrow> stock_consistent p"
proof -
  have "case decrementStock_loop e items d [] [] of (d', errs', upd') \<Rightarrow>
          \<forall>p \<in> set (products d'). prod_id p \<in> set upd' \<longrightarrow> stock_consistent p"
    by (rule decrementStock_loop_invariant)
       (auto simp: apply_stock_def write_stock_def stock_consistent_def)
  then show ?thesis
    by (auto simp: decrementStock_def split: prod.splits)
qed

lemma restoreStock_in_stock:
  "\<forall>p \<in> set (products (snd (restoreStock e d items))).
     prod_id p \<in> set (updatedProducts (fst (restoreStock e d items))) \<longrightarrow>
     prod_in_stock p = Some True \<and> prod_stock_quantity p \<noteq> None"
proof -
  have "case restoreStock_loop e items d [] [] of (d', errs', upd') \<Rightarrow>
          \<forall>p \<in> set (products d'). prod_id p \<in> set upd' \<longrightarrow>
             prod_in_stock p = Some True \<and> prod_stock_quantity p \<noteq> None"
    by (rule restoreStock_loop_invariant)
       (auto simp: apply_stock_def write_stock_def)
  then show ?thesis
    by (auto simp: restoreStock_def split: prod.splits)
qed

lemma restoreStock_positive:
  assumes q: "\<forall>i \<in> set items. 1 \<le> quantity i"
    and s: "\<forall>p \<in> set (products d). 0 \<le> current_stock p"
  shows "\<forall>p \<in> set (products (snd (restoreStock e d items))).
     prod_id p \<in> set (updatedProducts (fst (restoreStock e d items))) \<longrightarrow>
     0 < current_stock p \<and> stock_consistent p"
proof -
  have "case restoreStock_loop e items d [] [] of (d', errs', upd') \<Rightarrow>
          (\<forall>p \<in> set (products d'). 0 \<le> current_stock p) \<and>
          (\<forall>p \<in> set (products d'). prod_id p \<in> set upd' \<longrightarrow>
             0 < current_stock p \<and> stock_consistent p)"
  proof (rule restoreStock_loop_invariant, goal_cases)
    case 1
    show ?case using s by simp
  next
    case (2 d upd item product)
    from 2(3) have "product \<in> set (products d)" by (simp add: select_product_Some)
    with 2(1) have "0 \<le> current_stock product" by blast
    moreover from 2(2) q have "1 \<le> quantity item" by blast
    ultimately have pos: "0 < current_stock product + quantity item" by linarith
    with 2(1) show ?case
      by (auto simp: apply_stock_def write_stock_def stock_consistent_def current_stock_def)
  qed
  then show ?thesis
    by (auto simp: restoreStock_def split: prod.splits)
qed

lemma decrementStock_single:
  assumes "select_product e d (product_id item) = Some product"
    and "db_error e (UpdateProduct (product_id item)) = None"
  shows "decrementStock e d [item] =
     (\<lparr>success = True, errors = [], updatedProducts = [product_id item]\<rparr>,
      apply_stock d (product_id item)
        (write_stock e (max 0 (current_stock product - quantity item))
           (0 < max 0 (current_stock product - quantity item))))"
  using assms
  by (simp del: decrementStock_loop.simps(2) add: decrementStock_def decrementStock_loop_Cons)

lemma restoreStock_single:
  assumes "select_product e d (product_id item) = Some product"
    and "db_error e (UpdateProduct (product_id item)) = None"
  shows "restoreStock e d [item] =
     (\<lparr>success = True, errors = [], updatedProducts = [product_id item]\<rparr>,
      apply_stock d (product_id item)
        (write_stock e (current_stock product + quantity item) True))"
  using assms
  by (simp del: restoreStock_loop.simps(2) add: restoreStock_def restoreStock_loop_Cons)

text \<open>
  The result of either loop does not depend on what the accumulators held before, so each
  operation on \<open>item # rest\<close> is its step on \<open>item\<close> followed by the operation on
  \<open>rest\<close>, run on the database the step left.
\<close>

lemma decrementStock_loop_acc:
  "decrementStock_loop e items d errs upd =
     (case decrementStock_loop e items d [] [] of
        (d', es, us) \<Rightarrow> (d', errs @ es, upd @ us))"
proof (induction items arbitrary: d errs upd)
  case Nil
  show ?case by simp
next
  case (Cons item items)
  have acc: "decrementStock_loop e items d0 (errs0 @ m) (upd0 @ u) =
      (case decrementStock_loop e items d0 m u of
         (d', es, us) \<Rightarrow> (d', errs0 @ es, upd0 @ us))" for d0 errs0 upd0 m u
  proof -
    obtain d' es us where base: "decrementStock_loop e items d0 [] [] = (d', es, us)"
      by (cases "decrementStock_loop e items d0 [] []")
    have "decrementStock_loop e items d0 (errs0 @ m) (upd0 @ u) = (d', (errs0 @ m) @ es, (upd0 @ u) @ us)"
      using Cons.IH[of d0 "errs0 @ m" "upd0 @ u"] by (simp add: base)
    moreover have "decrementStock_loop e items d0 m u = (d', m @ es, u @ us)"
      using Cons.IH[of d0 m u] by (simp add: base)
    ultimately show ?thesis by simp
  qed
  show ?case
    unfolding decrementStock_loop_Cons
    using acc[of _ errs _ upd "[]"] acc[of _ errs "[]" upd _] acc[of _ errs "[]" upd "[]"]
    by (simp split: option.splits)
qed

lemma restoreStock_loop_acc:
  "restoreStock_loop e items d errs upd =
     (case restoreStock_loop e items d [] [] of
        (d', es, us) \<Rightarrow> (d', errs @ es, upd @ us))"
proof (induction items arbitrary: d errs upd)
  case Nil
  show ?case by simp
next
  case (Cons item items)
  have acc: "restoreStock_loop e items d0 (errs0 @ m) (upd0 @ u) =
      (case restoreStock_loop e items d0 m u of
         (d', es, us) \<Rightarrow> (d', errs0 @ es, upd0 @ us))" for d0 errs0 upd0 m u
  proof -
    obtain d' es us where base: "restoreStock_loop e items d0 [] [] = (d', es, us)"
      by (cases "restoreStock_loop e items d0 [] []")
    have "restoreStock_loop e items d0 (errs0 @ m) (upd0 @ u) = (d', (errs0 @ m) @ es, (upd0 @ u) @ us)"
      using Cons.IH[of d0 "errs0 @ m" "upd0 @ u"] by (simp add: base)
    moreover have "restoreStock_loop e items d0 m u = (d', m @ es, u @ us)"
      using Cons.IH[of d0 m u] by (simp add: base)
    ultimately show ?thesis by simp
  qed
  show ?case
    unfolding restoreStock_loop_Cons
    using acc[of _ errs _ upd "[]"] acc[of _ errs "[]" upd _] acc[of _ errs "[]" upd "[]"]
    by (simp split: option.splits)
qed


lemma decrementStock_Nil_result:
  "decrementStock e d [] = (\<lparr>success = True, errors = [], updatedProducts = []\<rparr>, d)"
  by (simp add: decrementStock_def)

lemma restoreStock_Nil_result:
  "restoreStock e d [] = (\<lparr>success = True, errors = [], updatedProducts = []\<rparr>, d)"
  by (simp add: restoreStock_def)

lemma decrementStock_Cons:
  "decrementStock e d (item # rest) =
     (case select_product e d (product_id item) of
        None \<Rightarrow>
          (case decrementStock e d rest of
             (r, d') \<Rightarrow>
               (\<lparr>success = False,
                 errors = (''Product '' @ product_id item @ '' not found'') # errors r,
                 updatedProducts = updatedProducts r\<rparr>, d'))
      | Some product \<Rightarrow>
          (case db_error e (UpdateProduct (product_id item)) of
             Some msg \<Rightarrow>
               (case decrementStock e d rest of
                  (r, d') \<Rightarrow>
                    (\<lparr>success = False,
                      errors = (''Failed to update stock for '' @ prod_name product @ '': '' @ msg)
                               # errors r,
                      updatedProducts = updatedProducts r\<rparr>, d'))
           | None \<Rightarrow>
               (case decrementStock e
                       (apply_stock d (product_id item)
                          (write_stock e (max 0 (current_stock product - quantity item))
                             (0 < max 0 (current_stock product - quantity item))))
                       rest of
                  (r, d') \<Rightarrow>
                    (\<lparr>success = success r, errors = errors r,
                      updatedProducts = product_id item # updatedProducts r\<rparr>, d'))))"
  unfolding decrementStock_def decrementStock_loop_Cons
  using decrementStock_loop_acc[of e rest _ "[_]" "[]"] decrementStock_loop_acc[of e rest _ "[]" "[_]"]
  by (simp split: option.splits prod.splits)

lemma restoreStock_Cons:
  "restoreStock e d (item # rest) =
     (case select_product e d (product_id item) of
        None \<Rightarrow>
          (case restoreStock e d rest of
             (r, d') \<Rightarrow>
               (\<lparr>success = False,
                 errors = (''Product '' @ product_id item @ '' not found'') # errors r,
                 updatedProducts = updatedProducts r\<rparr>, d'))
      | Some product \<Rightarrow>
          (case db_error e (UpdateProduct (product_id item)) of
             Some msg \<Rightarrow>
               (case restoreStock e d rest of
                  (r, d') \<Rightarrow>
                    (\<lparr>success = False,
                      errors = (''Failed to restore stock for '' @ prod_name product @ '': '' @ msg)
                               # errors r,
                      updatedProducts = updatedProducts r\<rparr>, d'))
           | None \<Rightarrow>
               (case restoreStock e
                       (apply_stock d (product_id item)
                          (write_stock e (current_stock product + quantity item) True))
                       rest of
                  (r, d') \<Rightarrow>
                    (\<lparr>success = success r, errors = errors r,
                      updatedProducts = product_id item # updatedProducts r\<rparr>, d'))))"
  unfolding restoreStock_def restoreStock_loop_Cons
  using restoreStock_loop_acc[of e rest _ "[_]" "[]"] restoreStock_loop_acc[of e rest _ "[]" "[_]"]
  by (simp split: option.splits prod.splits)

lemmas demo_defs = demo_env_def demo_db_def demo_P_def demo_Q_def demo_no_error_def
  demo_order_def demo_item_row_def demo_user_def demo_address_def demo_hmac_def

lemmas stock_defs = decrementStock_def restoreStock_def select_product_def update_product_def
  apply_stock_def write_stock_def current_stock_def single_def

subsection \<open>C6: stock floor and the in-stock flag\<close>

text \<open>
  C6 (as amended). For every item list, \<open>decrementStock\<close> handles the items one after
  the other: for each item whose product row is found and whose update the store accepts
  it writes \<open>stock_quantity = max 0 (current - quantity)\<close> and
  \<open>in_stock = (stock_quantity > 0)\<close>, where \<open>current\<close> is the stock the preceding items
  left, and it goes on with the rest of the list; an item whose row is not found or whose
  update fails adds an error and writes nothing. So every product it updated ends with a
  non-negative stock count and the flag \<open>in_stock = (stock_quantity > 0)\<close>.
  \<open>restoreStock\<close> handles the list in the same way and writes
  \<open>stock_quantity = current + quantity\<close> with the constant flag \<open>in_stock = true\<close>; the
  flag equals \<open>stock_quantity > 0\<close> when every restored quantity is at least one and no
  stock count is negative.
\<close>

theorem stock_floor_and_flag:
  "(\<forall>p \<in> set (products (snd (decrementStock e d items))).
      prod_id p \<in> set (updatedProducts (fst (decrementStock e d items))) \<longrightarrow> stock_consistent p)
   \<and> (\<forall>p \<in> set (products (snd (restoreStock e d items))).
      prod_id p \<in> set (updatedProducts (fst (restoreStock e d items))) \<longrightarrow>
      prod_in_stock p = Some True \<and> prod_stock_quantity p \<noteq> None)
   \<and> ((\<forall>i \<in> set items. 1 \<le> quantity i) \<and> (\<forall>p \<in> set (products d). 0 \<le> current_stock p) \<longrightarrow>
      (\<forall>p \<in> set (products (snd (restoreStock e d items))).
         prod_id p \<in> set (updatedProducts (fst (restoreStock e d items))) \<longrightarrow>
         0 < current_stock p \<and> stock_consistent p))
   \<and> (select_product e d (product_id item) = Some product \<and>
        db_error e (UpdateProduct (product_id item)) = None \<longrightarrow>
        decrementStock e d [item] =
          (\<lparr>success = True, errors = [], updatedProducts = [product_id item]\<rparr>,
           apply_stock d (product_id item)
             (write_stock e (max 0 (current_stock product - quantity item))
                (0 < max 0 (current_stock product - quantity item))))
        \<and> restoreStock e d [item] =
          (\<lparr>success = True, errors = [], updatedProducts = [product_id item]\<rparr>,
           apply_stock d (product_id item)
             (write_stock e (current_stock product + quantity item) True)))
   \<and> decrementStock e d [] = (\<lparr>success = True, errors = [], updatedProducts = []\<rparr>, d)
   \<and> decrementStock e d (item # rest) =
       (case select_product e d (product_id item) of
          None \<Rightarrow>
            (case decrementStock e d rest of
               (r, d') \<Rightarrow>
                 (\<lparr>success = False,
                   errors = (''Product '' @ product_id item @ '' not found'') # errors r,
                   updatedProducts = updatedProducts r\<rparr>, d'))
        | Some product \<Rightarrow>
            (case db_error e (UpdateProduct (product_id item)) of
               Some msg \<Rightarrow>
                 (case decrementStock e d rest of
                    (r, d') \<Rightarrow>
                      (\<lparr>success = False,
                        errors = (''Failed to update stock for '' @ prod_name product @ '': '' @ msg)
                                 # errors r,
                        updatedProducts = updatedProducts r\<rparr>, d'))
             | None \<Rightarrow>
                 (case decrementStock e
                         (apply_stock d (product_id item)
                            (write_stock e (max 0 (current_stock product - quantity item))
                               (0 < max 0 (current_stock product - quantity item))))
                         rest of
                    (r, d') \<Rightarrow>
                      (\<lparr>success = success r, errors = errors r,
                        updatedProducts = product_id item # updatedProducts r\<rparr>, d'))))
   \<and> restoreStock e d [] = (\<lparr>success = True, errors = [], updatedProducts = []\<rparr>, d)
   \<and> restoreStock e d (item # rest) =
       (case select_product e d (product_id item) of
          None \<Rightarrow>
            (case restoreStock e d rest of
               (r, d') \<Rightarrow>
                 (\<lparr>success = False,
                   errors = (''Product '' @ product_id item @ '' not found'') # errors r,
                   updatedProducts = updatedProducts r\<rparr>, d'))
        | Some product \<Rightarrow>
            (case db_error e (UpdateProduct (product_id item)) of
               Some msg \<Rightarrow>
                 (case restoreStock e d rest of
                    (r, d') \<Rightarrow>
                      (\<lparr>success = False,
                        errors = (''Failed to restore stock for '' @ prod_name product @ '': '' @ msg)
                                 # errors r,
                        updatedProducts = updatedProducts r\<rparr>, d'))
             | None \<Rightarrow>
                 (case restoreStock e
                         (apply_stock d (product_id item)
                            (write_stock e (current_stock product + quantity item) True))
                         rest of
                    (r, d') \<Rightarrow>
                      (\<lparr>success = success r, errors = errors r,
                        updatedProducts = product_id item # updatedProducts r\<rparr>, d'))))"
proof -
  have single_item: "select_product e d (product_id item) = Some product \<and>
        db_error e (UpdateProduct (product_id item)) = None \<longrightarrow>
        decrementStock e d [item] =
          (\<lparr>success = True, errors = [], updatedProducts = [product_id item]\<rparr>,
           apply_stock d (product_id item)
             (write_stock e (max 0 (current_stock product - quantity item))
                (0 < max 0 (current_stock product - quantity item))))
        \<and> restoreStock e d [item] =
          (\<lparr>success = True, errors = [], updatedProducts = [product_id item]\<rparr>,
           apply_stock d (product_id item)
             (write_stock e (current_stock product + quantity item) True))"
    using decrementStock_single[of e d item product] restoreStock_single[of e d item product]
    by blast
  have positive: "(\<forall>i \<in> set items. 1 \<le> quantity i) \<and> (\<forall>p \<in> set (products d). 0 \<le> current_stock p) \<longrightarrow>
      (\<forall>p \<in> set (products (snd (restoreStock e d items))).
         prod_id p \<in> set (updatedProducts (fst (restoreStock e d items))) \<longrightarrow>
         0 < current_stock p \<and> stock_consistent p)"
    using restoreStock_positive[of items d e] by blast
  show ?thesis
    by (intro conjI decrementStock_consistent restoreStock_in_stock positive single_item
          decrementStock_Nil_result decrementStock_Cons restoreStock_Nil_result restoreStock_Cons)
qed

theorem stock_floor_and_flag_witness:
  "select_product demo_env demo_db ''prod-Q'' = Some demo_Q
   \<and> db_error demo_env (UpdateProduct ''prod-Q'') = None
   \<and> 0 \<le> current_stock demo_P \<and> 0 \<le> current_stock demo_Q
   \<and> decrementStock demo_env demo_db
        [\<lparr>product_id = ''prod-Q'', quantity = 1\<rparr>, \<lparr>product_id = ''prod-P'', quantity = 2\<rparr>,
         \<lparr>product_id = ''prod-P'', quantity = 4\<rparr>] =
       (\<lparr>success = True, errors = [], updatedProducts = [''prod-Q'', ''prod-P'', ''prod-P'']\<rparr>,
        demo_db\<lparr>products :=
          [demo_P\<lparr>prod_stock_quantity := Some 0, prod_in_stock := Some False,
                  prod_updated_at := now demo_env\<rparr>,
           demo_Q\<lparr>prod_stock_quantity := Some 0, prod_in_stock := Some False,
                  prod_updated_at := now demo_env\<rparr>]\<rparr>)
   \<and> decrementStock demo_env demo_db
        [\<lparr>product_id = ''prod-Q'', quantity = 1\<rparr>, \<lparr>product_id = ''prod-P'', quantity = 2\<rparr>] =
       (\<lparr>success = True, errors = [], updatedProducts = [''prod-Q'', ''prod-P'']\<rparr>,
        demo_db\<lparr>products :=
          [demo_P\<lparr>prod_stock_quantity := Some 3, prod_in_stock := Some True,
                  prod_updated_at := now demo_env\<rparr>,
           demo_Q\<lparr>prod_stock_quantity := Some 0, prod_in_stock := Some False,
                  prod_updated_at := now demo_env\<rparr>]\<rparr>)
   \<and> restoreStock demo_env demo_db
        [\<lparr>product_id = ''prod-Q'', quantity = 1\<rparr>, \<lparr>product_id = ''prod-P'', quantity = 2\<rparr>,
         \<lparr>product_id = ''prod-X'', quantity = 2\<rparr>] =
       (\<lparr>success = False, errors = [''Product prod-X not found''],
         updatedProducts = [''prod-Q'', ''prod-P'']\<rparr>,
        demo_db\<lparr>products :=
          [demo_P\<lparr>prod_stock_quantity := Some 7, prod_in_stock := Some True,
                  prod_updated_at := now demo_env\<rparr>,
           demo_Q\<lparr>prod_stock_quantity := Some 1, prod_in_stock := Some True,
                  prod_updated_at := now demo_env\<rparr>]\<rparr>)
   \<and> stock_consistent
         (demo_Q\<lparr>prod_stock_quantity := Some 1, prod_in_stock := Some True,
                 prod_updated_at := now demo_env\<rparr>)"
  using stock_floor_and_flag
    [where e = demo_env and d = demo_db
       and items = "[\<lparr>product_id = ''prod-Q'', quantity = 1\<rparr>,
                     \<lparr>product_id = ''prod-P'', quantity = 2\<rparr>,
                     \<lparr>product_id = ''prod-X'', quantity = 2\<rparr>]"
       and item = "\<lparr>product_id = ''prod-Q'', quantity = 1\<rparr>"
       and rest = "[\<lparr>product_id = ''prod-P'', quantity = 2\<rparr>,
                    \<lparr>product_id = ''prod-P'', quantity = 4\<rparr>]"
       and product = demo_Q]
  by (simp add: stock_defs demo_defs stock_consistent_def)

text \<open>
  C6 as the specification states it fails for \<open>restoreStock\<close>: restoring a quantity of
  zero to the sold-out product Q leaves \<open>stock_quantity = 0\<close> with \<open>in_stock = true\<close>.
\<close>

theorem restore_flag_counterexample:
  "restoreStock demo_env demo_db [\<lparr>product_id = ''prod-Q'', quantity = 0\<rparr>] =
     (\<lparr>success = True, errors = [], updatedProducts = [''prod-Q'']\<rparr>,
      demo_db\<lparr>products :=
        [demo_P,
         demo_Q\<lparr>prod_stock_quantity := Some 0, prod_in_stock := Some True,
                prod_updated_at := now demo_env\<rparr>]\<rparr>)
   \<and> \<not> stock_consistent
         (demo_Q\<lparr>prod_stock_quantity := Some 0, prod_in_stock := Some True,
                 prod_updated_at := now demo_env\<rparr>)"
  by (simp add: stock_defs demo_defs stock_consistent_def)

subsection \<open>Verifier (C2, C3, C4)\<close>

lemma filter_map_if:
  assumes "\<And>x. P (f x) = P x"
  shows "filter P (map (\<lambda>x. if Q x then f x else x) xs) = map (\<lambda>x. if Q x then f x else x) (filter P xs)"
  using assms by (induction xs) auto

lemma select_order_by_id_Some:
  "select_order_by_id e d oid = Some order \<Longrightarrow>
     db_error e SelectOrder = None \<and> rows_with_id d oid = [order]"
  by (simp add: select_order_by_id_def rows_with_id_def single_eq_Some split: option.splits)

lemma rows_with_id_single:
  "rows_with_id d oid = [order] \<Longrightarrow> order \<in> set (orders d) \<and> ord_id order = oid"
proof -
  assume "rows_with_id d oid = [order]"
  then have "order \<in> set (filter (\<lambda>r. ord_id r = oid) (orders d))"
    by (simp add: rows_with_id_def)
  then show ?thesis by simp
qed

lemma update_order_by_id_ok:
  "db_error e UpdateOrder = None \<Longrightarrow>
   update_order_by_id e d oid f =
     (None, d\<lparr>orders := map (\<lambda>r. if ord_id r = oid then f r else r) (orders d)\<rparr>)"
  by (simp add: update_order_by_id_def)

lemma update_order_by_id_err:
  "db_error e UpdateOrder = Some msg \<Longrightarrow> update_order_by_id e d oid f = (Some msg, d)"
  by (simp add: update_order_by_id_def)

lemma rows_with_id_update:
  assumes "rows_with_id d oid = [order]" and "\<And>r. ord_id (f r) = ord_id r"
  shows "rows_with_id (d\<lparr>orders := map (\<lambda>r. if ord_id r = oid then f r else r) (orders d)\<rparr>) oid = [f order]"
proof -
  have "filter (\<lambda>r. ord_id r = oid) (map (\<lambda>r. if ord_id r = oid then f r else r) (orders d))
        = map (\<lambda>r. if ord_id r = oid then f r else r) (filter (\<lambda>r. ord_id r = oid) (orders d))"
    by (rule filter_map_if) (simp add: assms(2))
  moreover have "ord_id order = oid" using assms(1) rows_with_id_single by blast
  ultimately show ?thesis using assms(1) by (simp add: rows_with_id_def)
qed

lemma decrementStock_orders:
  "orders (snd (decrementStock e d items)) = orders d \<and>
   order_items (snd (decrementStock e d items)) = order_items d"
proof -
  have "case decrementStock_loop e items d [] [] of (d', errs', upd') \<Rightarrow>
          orders d' = orders d \<and> order_items d' = order_items d"
    by (rule decrementStock_loop_invariant) (simp_all add: apply_stock_def)
  then show ?thesis
    by (auto simp: decrementStock_def split: prod.splits)
qed

lemma rows_with_id_decrementStock:
  "rows_with_id (snd (decrementStock e d items)) oid = rows_with_id d oid"
  by (simp add: rows_with_id_def decrementStock_orders)

lemma ord_id_mark [simp]:
  "ord_id (mark_verified e req r) = ord_id r"
  "ord_id (mark_verification_failed e req r) = ord_id r"
  "ord_id (mark_captured e p r) = ord_id r"
  "ord_id (mark_failed e p r) = ord_id r"
  by (simp_all add: mark_verified_def mark_verification_failed_def mark_captured_def mark_failed_def)

text \<open>What the verifier does once the gates are passed.\<close>

lemma verify_after_gates:
  assumes "passes_gates e d req order"
  shows "verify_payment_POST e d req =
     (if ord_payment_status order = Some ''paid''
      then (\<lparr>status = 200, body = VerifyOk ''Payment already verified'' (order_id req)\<rparr>, None, d)
      else if expected_signature e req \<noteq> razorpay_signature req
      then (\<lparr>status = 400, body = ErrorBody ''Payment verification failed''\<rparr>, None,
            snd (update_order_by_id e d (order_id req) (mark_verification_failed e req)))
      else (case update_order_by_id e d (order_id req) (mark_verified e req) of
              (Some updateError, _) \<Rightarrow>
                (\<lparr>status = 500, body = ErrorBody ''Failed to update order status''\<rparr>, None, d)
            | (None, d1) \<Rightarrow>
                (case select_order_items e d1 (order_id req) of
                   None \<Rightarrow> (\<lparr>status = 200, body = VerifyOk ''Payment verified successfully'' (order_id req)\<rparr>, None, d1)
                 | Some orderItems \<Rightarrow>
                     if length orderItems > 0
                     then (\<lparr>status = 200, body = VerifyOk ''Payment verified successfully'' (order_id req)\<rparr>,
                           Some (fst (decrementStock e d1 (map to_OrderItem orderItems))),
                           snd (decrementStock e d1 (map to_OrderItem orderItems)))
                     else (\<lparr>status = 200, body = VerifyOk ''Payment verified successfully'' (order_id req)\<rparr>, None, d1))))"
  using assms
  by (auto simp: passes_gates_def verify_payment_POST_def expected_signature_def Let_def
           split: option.splits prod.splits)

lemmas verify_defs = verify_payment_POST_def select_order_by_id_def update_order_by_id_def
  select_order_items_def to_OrderItem_def mark_verified_def mark_verification_failed_def
  passes_gates_def expected_signature_def rows_with_id_def single_def

lemma passes_gates_rows:
  "passes_gates e d req order \<Longrightarrow>
     rows_with_id d (order_id req) = [order] \<and> db_error e SelectOrder = None"
proof -
  assume "passes_gates e d req order"
  then have "select_order_by_id e d (order_id req) = Some order"
    by (simp add: passes_gates_def)
  then show ?thesis using select_order_by_id_Some by blast
qed

lemma verify_valid_result:
  assumes g: "passes_gates e d req order"
    and np: "ord_payment_status order \<noteq> Some ''paid''"
    and sg: "razorpay_signature req = expected_signature e req"
    and up: "db_error e UpdateOrder = None"
  shows "fst (verify_payment_POST e d req) =
           \<lparr>status = 200, body = VerifyOk ''Payment verified successfully'' (order_id req)\<rparr>"
    and "rows_with_id (snd (snd (verify_payment_POST e d req))) (order_id req) = [mark_verified e req order]"
    and "order_items (snd (snd (verify_payment_POST e d req))) = order_items d"
    and "orders (snd (snd (verify_payment_POST e d req))) =
           map (\<lambda>r. if ord_id r = order_id req then mark_verified e req r else r) (orders d)"
proof -
  let ?d1 = "d\<lparr>orders := map (\<lambda>r. if ord_id r = order_id req then mark_verified e req r else r) (orders d)\<rparr>"
  have rows: "rows_with_id d (order_id req) = [order]"
    using passes_gates_rows[OF g] by simp
  have rows1: "rows_with_id ?d1 (order_id req) = [mark_verified e req order]"
    by (rule rows_with_id_update[OF rows]) simp
  have v: "verify_payment_POST e d req =
      (case select_order_items e ?d1 (order_id req) of
         None \<Rightarrow> (\<lparr>status = 200, body = VerifyOk ''Payment verified successfully'' (order_id req)\<rparr>, None, ?d1)
       | Some orderItems \<Rightarrow>
           if length orderItems > 0
           then (\<lparr>status = 200, body = VerifyOk ''Payment verified successfully'' (order_id req)\<rparr>,
                 Some (fst (decrementStock e ?d1 (map to_OrderItem orderItems))),
                 snd (decrementStock e ?d1 (map to_OrderItem orderItems)))
           else (\<lparr>status = 200, body = VerifyOk ''Payment verified successfully'' (order_id req)\<rparr>, None, ?d1))"
    using np sg by (simp add: verify_after_gates[OF g] update_order_by_id_ok[OF up])
  show "fst (verify_payment_POST e d req) =
           \<lparr>status = 200, body = VerifyOk ''Payment verified successfully'' (order_id req)\<rparr>"
    by (simp add: v split: option.splits)
  show "rows_with_id (snd (snd (verify_payment_POST e d req))) (order_id req) = [mark_verified e req order]"
    using rows1 by (simp add: v rows_with_id_decrementStock split: option.splits)
  show "order_items (snd (snd (verify_payment_POST e d req))) = order_items d"
    by (simp add: v decrementStock_orders split: option.splits)
  show "orders (snd (snd (verify_payment_POST e d req))) =
           map (\<lambda>r. if ord_id r = order_id req then mark_verified e req r else r) (orders d)"
    by (simp add: v decrementStock_orders split: option.splits)
qed

text \<open>
  C2. A verify request that passes the gates (session user, all fields present, order
  found, owned by the caller, stored under the submitted gateway order id) on an order
  not yet paid, with the signature equal to the HMAC of \<open>order id | payment id\<close> under
  the key secret, is answered with success, and the order row ends with
  \<open>payment_status = paid\<close>, \<open>status = processing\<close>, the payment id, the signature and
  the verification timestamp stored. The store is assumed to apply the update; when it
  reports an error the route answers 500 and writes nothing.
\<close>

theorem verifier_accepts_valid_signature:
  assumes "passes_gates e d req order"
    and "ord_payment_status order \<noteq> Some ''paid''"
    and "razorpay_signature req = expected_signature e req"
    and "db_error e UpdateOrder = None"
  shows "fst (verify_payment_POST e d req) =
           \<lparr>status = 200, body = VerifyOk ''Payment verified successfully'' (order_id req)\<rparr>
     \<and> rows_with_id (snd (snd (verify_payment_POST e d req))) (order_id req) =
           [order\<lparr>ord_razorpay_payment_id := Some (razorpay_payment_id req),
                  ord_razorpay_signature := Some (razorpay_signature req),
                  ord_payment_status := Some ''paid'',
                  ord_status := Some ''processing'',
                  ord_payment_metadata := Some (Verified (now e) ''signature'')\<rparr>]"
  using verify_valid_result(1,2)[OF assms] by (simp add: mark_verified_def)

lemmas demo_request_defs = demo_verify_request_def demo_tampered_request_def

theorem verifier_accepts_valid_signature_witness:
  "passes_gates demo_env demo_db demo_verify_request demo_order
   \<and> ord_payment_status demo_order \<noteq> Some ''paid''
   \<and> razorpay_signature demo_verify_request = expected_signature demo_env demo_verify_request
   \<and> db_error demo_env UpdateOrder = None
   \<and> verify_payment_POST demo_env demo_db demo_verify_request =
       (\<lparr>status = 200, body = VerifyOk ''Payment verified successfully'' ''order-1''\<rparr>,
        Some \<lparr>success = True, errors = [], updatedProducts = [''prod-P'']\<rparr>,
        \<lparr>orders =
           [demo_order\<lparr>ord_razorpay_payment_id := Some ''pay_1'',
                       ord_razorpay_signature := Some ''key-secret#order_R1|pay_1'',
                       ord_payment_status := Some ''paid'',
                       ord_status := Some ''processing'',
                       ord_payment_metadata :=
                         Some (Verified ''2025-01-07T10:00:00.000Z'' ''signature'')\<rparr>],
         order_items = [demo_item_row],
         products =
           [demo_P\<lparr>prod_stock_quantity := Some 3, prod_in_stock := Some True,
                   prod_updated_at := ''2025-01-07T10:00:00.000Z''\<rparr>, demo_Q]\<rparr>)"
  using verifier_accepts_valid_signature
    [of demo_env demo_db demo_verify_request demo_order]
  by (simp add: verify_defs stock_defs demo_defs demo_request_defs)

text \<open>
  When the store reports an error on the update, the verifier answers 500 and the
  database is as before.
\<close>

lemma verifier_update_error:
  assumes "passes_gates e d req order"
    and "ord_payment_status order \<noteq> Some ''paid''"
    and "razorpay_signature req = expected_signature e req"
    and "db_error e UpdateOrder = Some msg"
  shows "verify_payment_POST e d req =
           (\<lparr>status = 500, body = ErrorBody ''Failed to update order status''\<rparr>, None, d)"
  using assms(2,3)
  by (simp add: verify_after_gates[OF assms(1)] update_order_by_id_err[OF assms(4)])

text \<open>
  C3. A verify request that passes the gates on an order not yet paid, with a signature
  different from the recomputed one, is rejected with 400 and the fixed message
  \<open>Payment verification failed\<close>; the stock helper is not called and the products and
  order items are untouched; the order row is set to \<open>payment_status = failed\<close> with the
  failure metadata (the update the route issues, whose error it does not inspect).
\<close>

theorem verifier_rejects_tampered_signature:
  assumes "passes_gates e d req order"
    and "ord_payment_status order \<noteq> Some ''paid''"
    and "razorpay_signature req \<noteq> expected_signature e req"
  shows "fst (verify_payment_POST e d req) =
           \<lparr>status = 400, body = ErrorBody ''Payment verification failed''\<rparr>
     \<and> fst (snd (verify_payment_POST e d req)) = None
     \<and> products (snd (snd (verify_payment_POST e d req))) = products d
     \<and> order_items (snd (snd (verify_payment_POST e d req))) = order_items d
     \<and> (db_error e UpdateOrder = None \<longrightarrow>
          rows_with_id (snd (snd (verify_payment_POST e d req))) (order_id req) =
            [order\<lparr>ord_payment_status := Some ''failed'',
                   ord_payment_metadata :=
                     Some (VerificationFailed (razorpay_payment_id req)
                             ''Signature verification failed'' (now e))\<rparr>])"
proof -
  have rows: "rows_with_id d (order_id req) = [order]"
    using passes_gates_rows[OF assms(1)] by simp
  have v: "verify_payment_POST e d req =
      (\<lparr>status = 400, body = ErrorBody ''Payment verification failed''\<rparr>, None,
       snd (update_order_by_id e d (order_id req) (mark_verification_failed e req)))"
    using assms(2,3) by (simp add: verify_after_gates[OF assms(1)])
  have keep: "products (snd (update_order_by_id e d (order_id req) (mark_verification_failed e req))) = products d
     \<and> order_items (snd (update_order_by_id e d (order_id req) (mark_verification_failed e req))) = order_items d"
    by (simp add: update_order_by_id_def split: option.splits)
  have upd: "rows_with_id (snd (update_order_by_id e d (order_id req) (mark_verification_failed e req))) (order_id req)
        = [mark_verification_failed e req order]" if "db_error e UpdateOrder = None"
    using rows_with_id_update[OF rows, of "mark_verification_failed e req"]
    by (simp add: update_order_by_id_ok[OF that])
  show ?thesis
    using keep upd by (simp add: v mark_verification_failed_def)
qed

theorem verifier_rejects_tampered_signature_witness:
  "passes_gates demo_env demo_db demo_tampered_request demo_order
   \<and> ord_payment_status demo_order \<noteq> Some ''paid''
   \<and> razorpay_signature demo_tampered_request \<noteq> expected_signature demo_env demo_tampered_request
   \<and> db_error demo_env UpdateOrder = None
   \<and> verify_payment_POST demo_env demo_db demo_tampered_request =
       (\<lparr>status = 400, body = ErrorBody ''Payment verification failed''\<rparr>, None,
        demo_db\<lparr>orders :=
          [demo_order\<lparr>ord_payment_status := Some ''failed'',
                      ord_payment_metadata :=
                        Some (VerificationFailed ''pay_1'' ''Signature verification failed''
                                ''2025-01-07T10:00:00.000Z'')\<rparr>]\<rparr>)"
  using verifier_rejects_tampered_signature
    [of demo_env demo_db demo_tampered_request demo_order]
  by (simp add: verify_defs demo_defs demo_request_defs)

lemma verify_paid_short_circuit:
  assumes "passes_gates e d req order" and "ord_payment_status order = Some ''paid''"
  shows "verify_payment_POST e d req =
     (\<lparr>status = 200, body = VerifyOk ''Payment already verified'' (order_id req)\<rparr>, None, d)"
  using assms(2) by (simp add: verify_after_gates[OF assms(1)])

lemma passes_gates_after_verified:
  assumes g: "passes_gates e d req order"
    and rows1: "rows_with_id d1 (order_id req) = [mark_verified e0 req0 order]"
    and au: "auth_user e' = auth_user e"
    and se: "db_error e' SelectOrder = None"
  shows "passes_gates e' d1 req (mark_verified e0 req0 order)"
proof -
  have "select_order_by_id e' d1 (order_id req) = Some (mark_verified e0 req0 order)"
    using rows1 se by (simp add: select_order_by_id_def rows_with_id_def single_def)
  then show ?thesis
    using g au by (simp add: passes_gates_def mark_verified_def split: option.splits)
qed

text \<open>
  C4. For an order that is already paid, a verify call that passes the gates returns
  success at once, whatever signature it carries and whatever the HMAC would be (the
  signature is never compared), does not call the stock helper
  and leaves the database as it was. Hence a second call with the same valid payload
  finds the order paid, answers success again and changes nothing: stock is decremented
  by the first call only.
\<close>

theorem verifier_idempotent:
  "(passes_gates e d req order \<and> ord_payment_status order = Some ''paid'' \<longrightarrow>
      verify_payment_POST e d req =
        (\<lparr>status = 200, body = VerifyOk ''Payment already verified'' (order_id req)\<rparr>, None, d))
   \<and> (passes_gates e d req order \<and> ord_payment_status order \<noteq> Some ''paid''
        \<and> razorpay_signature req = expected_signature e req
        \<and> db_error e UpdateOrder = None
        \<and> auth_user e' = auth_user e \<and> db_error e' SelectOrder = None \<longrightarrow>
      map ord_payment_status (rows_with_id (snd (snd (verify_payment_POST e d req))) (order_id req))
        = [Some ''paid'']
      \<and> verify_payment_POST e' (snd (snd (verify_payment_POST e d req))) req =
        (\<lparr>status = 200, body = VerifyOk ''Payment already verified'' (order_id req)\<rparr>, None,
         snd (snd (verify_payment_POST e d req))))"
proof (intro conjI impI)
  assume "passes_gates e d req order \<and> ord_payment_status order = Some ''paid''"
  then show "verify_payment_POST e d req =
        (\<lparr>status = 200, body = VerifyOk ''Payment already verified'' (order_id req)\<rparr>, None, d)"
    using verify_paid_short_circuit by blast
next
  assume a: "passes_gates e d req order \<and> ord_payment_status order \<noteq> Some ''paid''
        \<and> razorpay_signature req = expected_signature e req
        \<and> db_error e UpdateOrder = None
        \<and> auth_user e' = auth_user e \<and> db_error e' SelectOrder = None"
  let ?d1 = "snd (snd (verify_payment_POST e d req))"
  have rows1: "rows_with_id ?d1 (order_id req) = [mark_verified e req order]"
    using a verify_valid_result(2) by blast
  then show "map ord_payment_status (rows_with_id ?d1 (order_id req)) = [Some ''paid'']"
    by (simp add: mark_verified_def)
  have g1: "passes_gates e' ?d1 req (mark_verified e req order)"
    using a passes_gates_after_verified[OF _ rows1] by blast
  show "verify_payment_POST e' ?d1 req =
        (\<lparr>status = 200, body = VerifyOk ''Payment already verified'' (order_id req)\<rparr>, None, ?d1)"
    by (rule verify_paid_short_circuit[OF g1]) (simp add: mark_verified_def)
qed

theorem verifier_idempotent_witness:
  "passes_gates demo_env demo_db demo_verify_request demo_order
   \<and> ord_payment_status demo_order \<noteq> Some ''paid''
   \<and> razorpay_signature demo_verify_request = expected_signature demo_env demo_verify_request
   \<and> db_error demo_env UpdateOrder = None \<and> db_error demo_env SelectOrder = None
   \<and> verify_payment_POST demo_env (snd (snd (verify_payment_POST demo_env demo_db demo_verify_request)))
        demo_verify_request =
       (\<lparr>status = 200, body = VerifyOk ''Payment already verified'' ''order-1''\<rparr>, None,
        snd (snd (verify_payment_POST demo_env demo_db demo_verify_request)))
   \<and> map prod_stock_quantity
        (products (snd (snd (verify_payment_POST demo_env
           (snd (snd (verify_payment_POST demo_env demo_db demo_verify_request)))
           demo_verify_request)))) = [Some 3, Some 0]
   \<and> passes_gates demo_env
        (snd (snd (verify_payment_POST demo_env demo_db demo_verify_request)))
        demo_tampered_request
        (demo_order\<lparr>ord_razorpay_payment_id := Some ''pay_1'',
                    ord_razorpay_signature := Some ''key-secret#order_R1|pay_1'',
                    ord_payment_status := Some ''paid'',
                    ord_status := Some ''processing'',
                    ord_payment_metadata :=
                      Some (Verified ''2025-01-07T10:00:00.000Z'' ''signature'')\<rparr>)
   \<and> fst (verify_payment_POST demo_env
        (snd (snd (verify_payment_POST demo_env demo_db demo_verify_request)))
        demo_tampered_request) =
       \<lparr>status = 200, body = VerifyOk ''Payment already verified'' ''order-1''\<rparr>"
  using verifier_idempotent
    [of demo_env demo_db demo_verify_request demo_order demo_env]
    verifier_idempotent
    [of demo_env "snd (snd (verify_payment_POST demo_env demo_db demo_verify_request))"
        demo_tampered_request
        "demo_order\<lparr>ord_razorpay_payment_id := Some ''pay_1'',
                    ord_razorpay_signature := Some ''key-secret#order_R1|pay_1'',
                    ord_payment_status := Some ''paid'',
                    ord_status := Some ''processing'',
                    ord_payment_metadata :=
                      Some (Verified ''2025-01-07T10:00:00.000Z'' ''signature'')\<rparr>" demo_env]
  by (simp add: verify_defs stock_defs demo_defs demo_request_defs)

subsection \<open>Webhook: response status (C7)\<close>

lemmas webhook_defs = webhook_POST_def handlePaymentCaptured_def handlePaymentFailed_def
  verifyWebhookSignature_def timingSafeEqual_def select_order_by_razorpay_order_id_def
  mark_captured_def mark_failed_def header_present_def secret_configured_def
  signature_accepted_def captured_event_def

lemmas demo_webhook_defs = demo_webhook_request_def demo_parse_def demo_payload_def demo_payment_def

lemma webhook_signature_gate:
  "webhook_POST e d req =
     (if \<not> header_present req
      then (\<lparr>status = 400, body = ErrorBody ''Missing signature''\<rparr>, None, d)
      else if \<not> secret_configured e
      then (\<lparr>status = 500, body = ErrorBody ''Webhook not configured''\<rparr>, None, d)
      else if \<not> signature_accepted e req
      then (\<lparr>status = 400, body = ErrorBody ''Invalid signature''\<rparr>, None, d)
      else (case json_parse e (raw_body req) of
              None \<Rightarrow> (\<lparr>status = 200, body = ReceivedError ''Processing error''\<rparr>, None, d)
            | Some payload \<Rightarrow>
                if wp_event payload = ''payment.captured'' \<or> wp_event payload = ''order.paid''
                then (\<lparr>status = 200, body = Received\<rparr>,
                      fst (handlePaymentCaptured e d payload),
                      snd (handlePaymentCaptured e d payload))
                else if wp_event payload = ''payment.failed''
                then (\<lparr>status = 200, body = Received\<rparr>, None, handlePaymentFailed e d payload)
                else (\<lparr>status = 200, body = Received\<rparr>, None, d)))"
  by (simp add: webhook_POST_def header_present_def secret_configured_def signature_accepted_def
        Let_def split: option.splits prod.splits)

lemma webhook_missing_order:
  assumes "wp_payment payload = Some p"
    and "select_order_by_razorpay_order_id e d (pay_order_id p) = None"
  shows "handlePaymentCaptured e d payload = (None, d)" and "handlePaymentFailed e d payload = d"
  using assms by (simp_all add: handlePaymentCaptured_def handlePaymentFailed_def)

text \<open>
  C7 (as amended). The webhook route answers 400 when the signature header is missing,
  500 when the webhook secret is not configured and 400 when the signature does not
  match, each time without touching the database. Every request whose signature is
  accepted is answered with 200: an unhandled event type and an unknown order are
  acknowledged with \<open>{received: true}\<close>, and a body that does not parse is acknowledged
  with \<open>{received: true, error: "Processing error"}\<close>, the database unchanged.
\<close>

theorem webhook_status_policy:
  "(\<not> header_present req \<longrightarrow>
      webhook_POST e d req = (\<lparr>status = 400, body = ErrorBody ''Missing signature''\<rparr>, None, d))
   \<and> (header_present req \<and> \<not> secret_configured e \<longrightarrow>
      webhook_POST e d req = (\<lparr>status = 500, body = ErrorBody ''Webhook not configured''\<rparr>, None, d))
   \<and> (header_present req \<and> secret_configured e \<and> \<not> signature_accepted e req \<longrightarrow>
      webhook_POST e d req = (\<lparr>status = 400, body = ErrorBody ''Invalid signature''\<rparr>, None, d))
   \<and> (signature_accepted e req \<longrightarrow> status (fst (webhook_POST e d req)) = 200)
   \<and> (signature_accepted e req \<and> json_parse e (raw_body req) = None \<longrightarrow>
      webhook_POST e d req =
        (\<lparr>status = 200, body = ReceivedError ''Processing error''\<rparr>, None, d))
   \<and> (signature_accepted e req \<and> json_parse e (raw_body req) = Some payload
        \<and> wp_event payload \<noteq> ''payment.captured'' \<and> wp_event payload \<noteq> ''order.paid''
        \<and> wp_event payload \<noteq> ''payment.failed'' \<longrightarrow>
      webhook_POST e d req = (\<lparr>status = 200, body = Received\<rparr>, None, d))
   \<and> (signature_accepted e req \<and> json_parse e (raw_body req) = Some payload
        \<and> wp_payment payload = Some p
        \<and> select_order_by_razorpay_order_id e d (pay_order_id p) = None \<longrightarrow>
      webhook_POST e d req = (\<lparr>status = 200, body = Received\<rparr>, None, d))"
proof -
  have acc: "header_present req \<and> secret_configured e" if "signature_accepted e req"
    using that
    by (auto simp: signature_accepted_def header_present_def secret_configured_def
             split: option.splits)
  show ?thesis
    using acc webhook_missing_order[of payload p e d]
    by (auto simp: webhook_signature_gate split: option.splits)
qed

theorem webhook_status_policy_witness:
  "\<not> header_present \<lparr>raw_body = ''captured'', x_razorpay_signature = None\<rparr>
   \<and> webhook_POST demo_env demo_db \<lparr>raw_body = ''captured'', x_razorpay_signature = None\<rparr> =
       (\<lparr>status = 400, body = ErrorBody ''Missing signature''\<rparr>, None, demo_db)
   \<and> header_present (demo_webhook_request ''refund'')
   \<and> \<not> secret_configured (demo_env\<lparr>RAZORPAY_WEBHOOK_SECRET := None\<rparr>)
   \<and> webhook_POST (demo_env\<lparr>RAZORPAY_WEBHOOK_SECRET := None\<rparr>) demo_db
        (demo_webhook_request ''refund'') =
       (\<lparr>status = 500, body = ErrorBody ''Webhook not configured''\<rparr>, None, demo_db)
   \<and> secret_configured demo_env
   \<and> \<not> signature_accepted demo_env \<lparr>raw_body = ''captured'', x_razorpay_signature = Some ''forged''\<rparr>
   \<and> webhook_POST demo_env demo_db
        \<lparr>raw_body = ''captured'', x_razorpay_signature = Some ''forged''\<rparr> =
       (\<lparr>status = 400, body = ErrorBody ''Invalid signature''\<rparr>, None, demo_db)
   \<and> signature_accepted demo_env (demo_webhook_request ''refund'')
   \<and> json_parse demo_env ''refund'' = Some (demo_payload ''refund.created'' None)
   \<and> webhook_POST demo_env demo_db (demo_webhook_request ''refund'') =
       (\<lparr>status = 200, body = Received\<rparr>, None, demo_db)
   \<and> signature_accepted demo_env (demo_webhook_request ''unknown-order'')
   \<and> select_order_by_razorpay_order_id demo_env demo_db ''order_R9'' = None
   \<and> webhook_POST demo_env demo_db (demo_webhook_request ''unknown-order'') =
       (\<lparr>status = 200, body = Received\<rparr>, None, demo_db)
   \<and> signature_accepted demo_env (demo_webhook_request ''not json'')
   \<and> json_parse demo_env ''not json'' = None
   \<and> status (fst (webhook_POST demo_env demo_db (demo_webhook_request ''not json''))) = 200"
  using webhook_status_policy
    [of "\<lparr>raw_body = ''captured'', x_razorpay_signature = None\<rparr>" demo_env demo_db]
    webhook_status_policy
    [of "demo_webhook_request ''refund''" "demo_env\<lparr>RAZORPAY_WEBHOOK_SECRET := None\<rparr>" demo_db]
    webhook_status_policy
    [of "\<lparr>raw_body = ''captured'', x_razorpay_signature = Some ''forged''\<rparr>" demo_env demo_db]
    webhook_status_policy
    [of "demo_webhook_request ''refund''" demo_env demo_db "demo_payload ''refund.created'' None"]
    webhook_status_policy
    [of "demo_webhook_request ''unknown-order''" demo_env demo_db
        "demo_payload ''payment.captured'' (Some (demo_payment\<lparr>pay_order_id := ''order_R9''\<rparr>))"
        "demo_payment\<lparr>pay_order_id := ''order_R9''\<rparr>"]
    webhook_status_policy
    [of "demo_webhook_request ''not json''" demo_env demo_db]
  by (simp add: webhook_defs demo_defs demo_webhook_defs single_def)

text \<open>
  C7 as the specification states it asks for a non-2xx status on a malformed payload; the route's
  \<open>catch\<close> block answers 200 (its comment: return 200 to prevent retries for parsing
  errors). A correctly signed body that does not parse:
\<close>

theorem webhook_malformed_counterexample:
  "json_parse demo_env (raw_body (demo_webhook_request ''not json'')) = None
   \<and> signature_accepted demo_env (demo_webhook_request ''not json'')
   \<and> webhook_POST demo_env demo_db (demo_webhook_request ''not json'') =
       (\<lparr>status = 200, body = ReceivedError ''Processing error''\<rparr>, None, demo_db)"
  by (simp add: webhook_defs demo_defs demo_webhook_defs)

subsection \<open>A paid order is never downgraded (C1)\<close>

lemma keeps_paid_same: "list_all2 keeps_paid xs xs"
  by (simp add: list_all2_same keeps_paid_def)

lemma keeps_paid_update:
  assumes "\<forall>r \<in> set xs. ord_id r = oid \<longrightarrow> ord_payment_status r \<noteq> Some ''paid''"
    and "\<And>r. ord_id (f r) = ord_id r"
  shows "list_all2 keeps_paid xs (map (\<lambda>r. if ord_id r = oid then f r else r) xs)"
  using assms by (simp add: list_all2_map2 list_all2_same keeps_paid_def)

lemma keeps_paid_trans:
  assumes "list_all2 keeps_paid xs ys" and "list_all2 keeps_paid ys zs"
  shows "list_all2 keeps_paid xs zs"
proof (rule list_all2_trans[OF _ assms])
  fix a b c
  assume "keeps_paid a b" and "keeps_paid b c"
  then show "keeps_paid a c" by (auto simp: keeps_paid_def)
qed

lemma keeps_paid_ids:
  "list_all2 keeps_paid xs ys \<Longrightarrow> map ord_id ys = map ord_id xs"
  by (induction rule: list_all2_induct) (simp_all add: keeps_paid_def)

lemma rows_with_id_unique:
  assumes "rows_with_id d oid = [order]" and "r \<in> set (orders d)" and "ord_id r = oid"
  shows "r = order"
proof -
  from assms(2,3) have "r \<in> set (rows_with_id d oid)" by (simp add: rows_with_id_def)
  with assms(1) show ?thesis by simp
qed

lemma distinct_ids_unique:
  assumes "distinct (map ord_id xs)" and "r \<in> set xs" and "order \<in> set xs"
    and "ord_id r = ord_id order"
  shows "r = order"
proof -
  from assms(1) have "inj_on ord_id (set xs)" by (simp add: distinct_map)
  with assms(2,3,4) show ?thesis by (auto dest: inj_onD)
qed

lemma select_order_by_razorpay_order_id_Some:
  assumes "select_order_by_razorpay_order_id e d rid = Some order"
  shows "order \<in> set (orders d)" and "ord_razorpay_order_id order = Some rid"
    and "filter (\<lambda>r. ord_razorpay_order_id r = Some rid) (orders d) = [order]"
    and "db_error e SelectOrder = None"
proof -
  from assms show f: "filter (\<lambda>r. ord_razorpay_order_id r = Some rid) (orders d) = [order]"
    and "db_error e SelectOrder = None"
    by (simp_all add: select_order_by_razorpay_order_id_def single_eq_Some split: option.splits)
  from f have "order \<in> set (filter (\<lambda>r. ord_razorpay_order_id r = Some rid) (orders d))" by simp
  then show "order \<in> set (orders d)" and "ord_razorpay_order_id order = Some rid" by simp_all
qed

lemma verify_orders_shape:
  "orders (snd (snd (verify_payment_POST e d req))) = orders d \<or>
   (\<exists>order f. select_order_by_id e d (order_id req) = Some order
      \<and> ord_payment_status order \<noteq> Some ''paid'' \<and> (\<forall>r. ord_id (f r) = ord_id r)
      \<and> orders (snd (snd (verify_payment_POST e d req))) =
          map (\<lambda>r. if ord_id r = order_id req then f r else r) (orders d))"
proof (cases "\<exists>order. passes_gates e d req order")
  case False
  then have "snd (snd (verify_payment_POST e d req)) = d"
    by (auto simp: verify_payment_POST_def passes_gates_def split: option.splits)
  then show ?thesis by simp
next
  case True
  then obtain order where g: "passes_gates e d req order" by blast
  then have sel: "select_order_by_id e d (order_id req) = Some order"
    by (simp add: passes_gates_def)
  show ?thesis
  proof (cases "ord_payment_status order = Some ''paid''")
    case True
    then show ?thesis by (simp add: verify_after_gates[OF g])
  next
    case np: False
    show ?thesis
    proof (cases "db_error e UpdateOrder")
      case (Some msg)
      then have "snd (snd (verify_payment_POST e d req)) = d"
        by (simp add: verify_after_gates[OF g] update_order_by_id_err)
      then show ?thesis by simp
    next
      case None
      show ?thesis
      proof (cases "expected_signature e req \<noteq> razorpay_signature req")
        case True
        then have "orders (snd (snd (verify_payment_POST e d req))) =
          map (\<lambda>r. if ord_id r = order_id req then mark_verification_failed e req r else r) (orders d)"
          using np by (simp add: verify_after_gates[OF g] update_order_by_id_ok[OF None])
        with sel np show ?thesis
          by (intro disjI2 exI[of _ order] exI[of _ "mark_verification_failed e req"]) simp
      next
        case False
        then have "orders (snd (snd (verify_payment_POST e d req))) =
          map (\<lambda>r. if ord_id r = order_id req then mark_verified e req r else r) (orders d)"
          using np verify_valid_result(4)[OF g np _ None] by simp
        with sel np show ?thesis
          by (intro disjI2 exI[of _ order] exI[of _ "mark_verified e req"]) simp
      qed
    qed
  qed
qed

lemma verify_keeps_paid:
  "list_all2 keeps_paid (orders d) (orders (snd (snd (verify_payment_POST e d req))))"
proof -
  from verify_orders_shape[of e d req] show ?thesis
  proof
    assume "orders (snd (snd (verify_payment_POST e d req))) = orders d"
    then show ?thesis by (simp add: keeps_paid_same)
  next
    assume "\<exists>order f. select_order_by_id e d (order_id req) = Some order
      \<and> ord_payment_status order \<noteq> Some ''paid'' \<and> (\<forall>r. ord_id (f r) = ord_id r)
      \<and> orders (snd (snd (verify_payment_POST e d req))) =
          map (\<lambda>r. if ord_id r = order_id req then f r else r) (orders d)"
    then obtain order f where sel: "select_order_by_id e d (order_id req) = Some order"
      and np: "ord_payment_status order \<noteq> Some ''paid''"
      and idf: "\<And>r. ord_id (f r) = ord_id r"
      and eq: "orders (snd (snd (verify_payment_POST e d req))) =
          map (\<lambda>r. if ord_id r = order_id req then f r else r) (orders d)"
      by blast
    have rows: "rows_with_id d (order_id req) = [order]"
      using sel select_order_by_id_Some by blast
    have "\<forall>r \<in> set (orders d). ord_id r = order_id req \<longrightarrow> ord_payment_status r \<noteq> Some ''paid''"
      using rows_with_id_unique[OF rows] np by blast
    from keeps_paid_update[OF this idf] show ?thesis by (simp add: eq)
  qed
qed

lemma orders_update_order_by_id:
  "orders (snd (update_order_by_id e d oid f)) = orders d \<or>
   (db_error e UpdateOrder = None \<and>
    orders (snd (update_order_by_id e d oid f)) =
      map (\<lambda>r. if ord_id r = oid then f r else r) (orders d))"
  by (simp add: update_order_by_id_def split: option.splits)

lemma handlePaymentCaptured_found:
  assumes "wp_payment payload = Some p"
    and "select_order_by_razorpay_order_id e d (pay_order_id p) = Some order"
  shows "handlePaymentCaptured e d payload =
     (if ord_payment_status order = Some ''paid'' then (None, d)
      else case db_error e UpdateOrder of
             Some msg \<Rightarrow> (None, d)
           | None \<Rightarrow>
               (case select_order_items e
                       (d\<lparr>orders := map (\<lambda>r. if ord_id r = ord_id order
                                              then mark_captured e p r else r) (orders d)\<rparr>)
                       (ord_id order) of
                  None \<Rightarrow>
                    (None, d\<lparr>orders := map (\<lambda>r. if ord_id r = ord_id order
                                              then mark_captured e p r else r) (orders d)\<rparr>)
                | Some orderItems \<Rightarrow>
                    if length orderItems > 0
                    then (Some (fst (decrementStock e
                             (d\<lparr>orders := map (\<lambda>r. if ord_id r = ord_id order
                                              then mark_captured e p r else r) (orders d)\<rparr>)
                             (map to_OrderItem orderItems))),
                          snd (decrementStock e
                             (d\<lparr>orders := map (\<lambda>r. if ord_id r = ord_id order
                                              then mark_captured e p r else r) (orders d)\<rparr>)
                             (map to_OrderItem orderItems)))
                    else (None, d\<lparr>orders := map (\<lambda>r. if ord_id r = ord_id order
                                              then mark_captured e p r else r) (orders d)\<rparr>)))"
  using assms
  by (simp add: handlePaymentCaptured_def update_order_by_id_def split: option.splits prod.splits)

lemma handlePaymentCaptured_orders:
  "orders (snd (handlePaymentCaptured e d payload)) = orders d \<or>
   (\<exists>p order. wp_payment payload = Some p
      \<and> select_order_by_razorpay_order_id e d (pay_order_id p) = Some order
      \<and> ord_payment_status order \<noteq> Some ''paid''
      \<and> orders (snd (handlePaymentCaptured e d payload)) =
          map (\<lambda>r. if ord_id r = ord_id order then mark_captured e p r else r) (orders d))"
proof (cases "wp_payment payload")
  case None
  then show ?thesis by (simp add: handlePaymentCaptured_def)
next
  case (Some p)
  show ?thesis
  proof (cases "select_order_by_razorpay_order_id e d (pay_order_id p)")
    case None
    with Some show ?thesis by (simp add: handlePaymentCaptured_def)
  next
    case found: (Some order)
    show ?thesis
    proof (cases "ord_payment_status order = Some ''paid'' \<or> db_error e UpdateOrder \<noteq> None")
      case True
      then have "snd (handlePaymentCaptured e d payload) = d"
        by (auto simp: handlePaymentCaptured_found[OF Some found])
      then show ?thesis by simp
    next
      case False
      then have "orders (snd (handlePaymentCaptured e d payload)) =
          map (\<lambda>r. if ord_id r = ord_id order then mark_captured e p r else r) (orders d)"
        by (auto simp: handlePaymentCaptured_found[OF Some found] decrementStock_orders
                 split: option.splits)
      with Some found False show ?thesis by blast
    qed
  qed
qed

lemma handlePaymentFailed_orders:
  "orders (handlePaymentFailed e d payload) = orders d \<or>
   (\<exists>p order. wp_payment payload = Some p
      \<and> select_order_by_razorpay_order_id e d (pay_order_id p) = Some order
      \<and> ord_payment_status order \<noteq> Some ''paid''
      \<and> orders (handlePaymentFailed e d payload) =
          map (\<lambda>r. if ord_id r = ord_id order then mark_failed e p r else r) (orders d))"
  by (auto simp: handlePaymentFailed_def update_order_by_id_def split: option.splits)

lemma keeps_paid_update_found:
  assumes dist: "distinct (map ord_id (orders d))"
    and sel: "select_order_by_razorpay_order_id e d rid = Some order"
    and np: "ord_payment_status order \<noteq> Some ''paid''"
    and idf: "\<And>r. ord_id (f r) = ord_id r"
  shows "list_all2 keeps_paid (orders d)
           (map (\<lambda>r. if ord_id r = ord_id order then f r else r) (orders d))"
proof -
  have mem: "order \<in> set (orders d)"
    using select_order_by_razorpay_order_id_Some(1)[OF sel] .
  have "\<forall>r \<in> set (orders d). ord_id r = ord_id order \<longrightarrow> ord_payment_status r \<noteq> Some ''paid''"
    using distinct_ids_unique[OF dist _ mem] np by blast
  from keeps_paid_update[OF this idf] show ?thesis .
qed

lemma handlePaymentCaptured_keeps_paid:
  assumes "distinct (map ord_id (orders d))"
  shows "list_all2 keeps_paid (orders d) (orders (snd (handlePaymentCaptured e d payload)))"
  using handlePaymentCaptured_orders[of e d payload] keeps_paid_update_found[OF assms]
  by (auto simp: keeps_paid_same)

lemma handlePaymentFailed_keeps_paid:
  assumes "distinct (map ord_id (orders d))"
  shows "list_all2 keeps_paid (orders d) (orders (handlePaymentFailed e d payload))"
  using handlePaymentFailed_orders[of e d payload] keeps_paid_update_found[OF assms]
  by (auto simp: keeps_paid_same)

lemma webhook_keeps_paid:
  assumes "distinct (map ord_id (orders d))"
  shows "list_all2 keeps_paid (orders d) (orders (snd (snd (webhook_POST e d req))))"
  using handlePaymentCaptured_keeps_paid[OF assms] handlePaymentFailed_keeps_paid[OF assms]
  by (simp add: webhook_signature_gate keeps_paid_same split: option.splits)

lemma run_call_keeps_paid:
  assumes "distinct (map ord_id (orders d))"
  shows "list_all2 keeps_paid (orders d) (orders (run_call c d))"
  using verify_keeps_paid webhook_keeps_paid[OF assms] by (cases c) simp_all

lemma run_calls_keeps_paid:
  assumes "distinct (map ord_id (orders d))"
  shows "list_all2 keeps_paid (orders d) (orders (run_calls cs d))"
  using assms
proof (induction cs arbitrary: d)
  case Nil
  show ?case by (simp add: keeps_paid_same)
next
  case (Cons c cs)
  have step: "list_all2 keeps_paid (orders d) (orders (run_call c d))"
    by (rule run_call_keeps_paid[OF Cons.prems])
  then have "distinct (map ord_id (orders (run_call c d)))"
    using Cons.prems by (simp add: keeps_paid_ids)
  then have "list_all2 keeps_paid (orders (run_call c d)) (orders (run_calls cs (run_call c d)))"
    by (rule Cons.IH)
  with step show ?case by (simp add: keeps_paid_trans)
qed

lemma handlePaymentFailed_paid:
  assumes "wp_payment payload = Some p"
    and "select_order_by_razorpay_order_id e d (pay_order_id p) = Some order"
    and "ord_payment_status order = Some ''paid''"
  shows "handlePaymentFailed e d payload = d"
  using assms by (simp add: handlePaymentFailed_def)

text \<open>
  C1. In a database whose order ids are distinct (the primary key), let any sequence of
  verify calls and webhook deliveries run, each with its own environment and payload.
  The orders table keeps its length, and every row that was paid at the start is the
  same row at the end: its \<open>payment_status\<close> is still paid and nothing else in it was
  written. In particular a \<open>payment.failed\<close> event for an order that is already paid
  returns the database unchanged, so no failure metadata is written.
\<close>

theorem paid_status_monotone:
  assumes "distinct (map ord_id (orders d))"
  shows "length (orders (run_calls cs d)) = length (orders d)
     \<and> (\<forall>i < length (orders d).
           ord_payment_status (orders d ! i) = Some ''paid'' \<longrightarrow>
           orders (run_calls cs d) ! i = orders d ! i)
     \<and> (wp_payment payload = Some p
          \<and> select_order_by_razorpay_order_id e d (pay_order_id p) = Some order
          \<and> ord_payment_status order = Some ''paid'' \<longrightarrow>
        handlePaymentFailed e d payload = d)"
proof -
  have "list_all2 keeps_paid (orders d) (orders (run_calls cs d))"
    by (rule run_calls_keeps_paid[OF assms])
  then have "length (orders (run_calls cs d)) = length (orders d)"
    and "\<forall>i < length (orders d). keeps_paid (orders d ! i) (orders (run_calls cs d) ! i)"
    by (simp_all add: list_all2_conv_all_nth)
  then show ?thesis
    using handlePaymentFailed_paid[of payload p e d order] by (auto simp: keeps_paid_def)
qed

lemmas demo_paid_defs = demo_paid_db_def demo_paid_order_def demo_calls_def

theorem paid_status_monotone_witness:
  "distinct (map ord_id (orders demo_paid_db))
   \<and> ord_payment_status (orders demo_paid_db ! 0) = Some ''paid''
   \<and> orders (run_calls demo_calls demo_paid_db) ! 0 = demo_paid_order
   \<and> wp_payment (demo_payload ''payment.failed'' (Some demo_payment)) = Some demo_payment
   \<and> select_order_by_razorpay_order_id demo_env demo_paid_db (pay_order_id demo_payment)
        = Some demo_paid_order
   \<and> handlePaymentFailed demo_env demo_paid_db
        (demo_payload ''payment.failed'' (Some demo_payment)) = demo_paid_db"
  using paid_status_monotone
    [where d = demo_paid_db and cs = demo_calls
       and payload = "demo_payload ''payment.failed'' (Some demo_payment)"
       and p = demo_payment and e = demo_env and order = demo_paid_order]
  by (simp add: demo_paid_defs demo_defs demo_webhook_defs demo_request_defs
        select_order_by_razorpay_order_id_def single_def)

subsection \<open>Order creation (C8, C9, C10)\<close>

lemmas create_defs = create_order_POST_def cod_POST_def insert_order_def insert_order_items_def
  new_order_def notes_or_null_def to_order_item_row_def cart_to_OrderItem_def
  gateway_order_request_def passes_validation_def COD_LIMIT_def

lemmas demo_create_defs = demo_create_request_def demo_cart_item_def demo_items_error_def
  demo_new_order_def demo_gateway_def demo_gateway_down_def

text \<open>
  C8. For a create-order request of a signed-in user that passes validation, when the
  gateway call \<open>razorpay.orders.create\<close> throws, the route answers with the error 500 and
  returns the database as it was: no order row and no order items are written.
\<close>

theorem initiator_atomic_on_gateway_failure:
  assumes "auth_user e = Some usr"
    and "passes_validation req"
    and "req_shipping_address req = Some addr"
    and "razorpay_orders_create e
           (gateway_order_request e usr addr (round (req_total_amount req * 100))) = None"
  shows "create_order_POST e d req =
           (\<lparr>status = 500, body = ErrorBody ''Internal server error''\<rparr>, None, d)"
  using assms by (simp add: create_order_POST_def passes_validation_def Let_def)

theorem initiator_atomic_on_gateway_failure_witness:
  "auth_user (demo_env\<lparr>razorpay_orders_create := demo_gateway_down\<rparr>) = Some demo_user
   \<and> passes_validation demo_create_request
   \<and> req_shipping_address demo_create_request = Some demo_address
   \<and> razorpay_orders_create (demo_env\<lparr>razorpay_orders_create := demo_gateway_down\<rparr>)
        (gateway_order_request (demo_env\<lparr>razorpay_orders_create := demo_gateway_down\<rparr>)
           demo_user demo_address (round (req_total_amount demo_create_request * 100))) = None
   \<and> create_order_POST (demo_env\<lparr>razorpay_orders_create := demo_gateway_down\<rparr>) demo_db
        demo_create_request =
       (\<lparr>status = 500, body = ErrorBody ''Internal server error''\<rparr>, None, demo_db)"
  using initiator_atomic_on_gateway_failure
    [of "demo_env\<lparr>razorpay_orders_create := demo_gateway_down\<rparr>" demo_user
        demo_create_request demo_address demo_db]
  by (simp add: demo_env_def demo_create_defs passes_validation_def demo_address_def)

text \<open>
  C9. A cash-on-delivery request of a signed-in user whose total amount is above the limit
  of 50000 is rejected with status 400; the stock helper is not called and the database is
  returned as it was (no order, no order items, no stock change). When the request also
  passes validation the rejection carries the limit message.
\<close>

theorem cod_ceiling:
  assumes "auth_user e = Some usr" and "50000 < req_total_amount req"
  shows "COD_LIMIT = 50000
     \<and> status (fst (cod_POST e d req)) = 400
     \<and> fst (snd (cod_POST e d req)) = None
     \<and> snd (snd (cod_POST e d req)) = d
     \<and> (passes_validation req \<longrightarrow>
          body (fst (cod_POST e d req)) =
            ErrorBody ''Cash on Delivery is available only for orders up to Rs 50,000'')"
  using assms
  by (auto simp: cod_POST_def COD_LIMIT_def passes_validation_def split: option.splits)

theorem cod_ceiling_witness:
  "auth_user demo_env = Some demo_user
   \<and> 50000 < req_total_amount (demo_create_request\<lparr>req_total_amount := 50001\<rparr>)
   \<and> passes_validation (demo_create_request\<lparr>req_total_amount := 50001\<rparr>)
   \<and> cod_POST demo_env demo_db (demo_create_request\<lparr>req_total_amount := 50001\<rparr>) =
       (\<lparr>status = 400,
         body = ErrorBody ''Cash on Delivery is available only for orders up to Rs 50,000''\<rparr>,
        None, demo_db)"
  using cod_ceiling
    [of demo_env demo_user "demo_create_request\<lparr>req_total_amount := 50001\<rparr>" demo_db]
  by (simp add: demo_env_def demo_create_defs passes_validation_def demo_address_def
        prod_eq_iff http_response.equality)

lemma create_order_items_failure:
  assumes au: "auth_user e = Some usr"
    and va: "passes_validation req"
    and ad: "req_shipping_address req = Some addr"
    and io: "db_error e InsertOrder = None"
    and ii: "db_error e InsertOrderItems = Some msg"
    and gw: "razorpay_orders_create e
           (gateway_order_request e usr addr (round (req_total_amount req * 100))) = Some rid"
  shows "create_order_POST e d req =
     (\<lparr>status = 200,
       body = CreateOrderOk (new_order_id e) rid (RAZORPAY_KEY_ID e)
                (round (req_total_amount req * 100)) ''INR''
                (fullName addr) (user_email usr) (phone addr)\<rparr>,
      None,
      d\<lparr>orders := orders d @
           [(new_order usr req addr ''razorpay'' (Some rid))\<lparr>ord_id := new_order_id e\<rparr>]\<rparr>)"
  using assms
  by (simp add: create_order_POST_def passes_validation_def insert_order_def
        insert_order_items_def Let_def)

lemma cod_order_items_failure:
  assumes au: "auth_user e = Some usr"
    and va: "passes_validation req"
    and ad: "req_shipping_address req = Some addr"
    and io: "db_error e InsertOrder = None"
    and ii: "db_error e InsertOrderItems = Some msg"
    and lim: "req_total_amount req \<le> 50000"
  shows "cod_POST e d req =
     (\<lparr>status = 200,
       body = CodOk (new_order_id e) ''cod'' ''Order placed successfully! Pay on delivery.''\<rparr>,
      Some (fst (decrementStock e
              (d\<lparr>orders := orders d @
                   [(new_order usr req addr ''cod'' None)\<lparr>ord_id := new_order_id e\<rparr>]\<rparr>)
              (map cart_to_OrderItem (req_items req)))),
      snd (decrementStock e
              (d\<lparr>orders := orders d @
                   [(new_order usr req addr ''cod'' None)\<lparr>ord_id := new_order_id e\<rparr>]\<rparr>)
              (map cart_to_OrderItem (req_items req))))"
  using assms
  by (simp add: cod_POST_def passes_validation_def insert_order_def COD_LIMIT_def
        insert_order_items_def Let_def split: prod.splits)

text \<open>
  C10. In both creation routes a failed insert of the order items after a successful
  insert of the order is not fatal: the route still answers 200 with the new order id;
  the order row is in the table and the order items table is as before, so no item exists
  for the new id. On the COD route the stock helper still runs over the submitted items.
\<close>

theorem order_items_failure_is_not_fatal:
  assumes "auth_user e = Some usr"
    and "passes_validation req"
    and "req_shipping_address req = Some addr"
    and "db_error e InsertOrder = None"
    and "db_error e InsertOrderItems = Some msg"
  shows "(razorpay_orders_create e
            (gateway_order_request e usr addr (round (req_total_amount req * 100))) = Some rid \<longrightarrow>
          create_order_POST e d req =
            (\<lparr>status = 200,
              body = CreateOrderOk (new_order_id e) rid (RAZORPAY_KEY_ID e)
                       (round (req_total_amount req * 100)) ''INR''
                       (fullName addr) (user_email usr) (phone addr)\<rparr>,
             None,
             d\<lparr>orders := orders d @
                  [(new_order usr req addr ''razorpay'' (Some rid))\<lparr>ord_id := new_order_id e\<rparr>]\<rparr>))
     \<and> (req_total_amount req \<le> 50000 \<longrightarrow>
          fst (cod_POST e d req) =
            \<lparr>status = 200,
             body = CodOk (new_order_id e) ''cod''
                      ''Order placed successfully! Pay on delivery.''\<rparr>
          \<and> orders (snd (snd (cod_POST e d req))) =
              orders d @ [(new_order usr req addr ''cod'' None)\<lparr>ord_id := new_order_id e\<rparr>]
          \<and> order_items (snd (snd (cod_POST e d req))) = order_items d
          \<and> snd (cod_POST e d req) =
              (Some (fst (decrementStock e
                      (d\<lparr>orders := orders d @
                           [(new_order usr req addr ''cod'' None)\<lparr>ord_id := new_order_id e\<rparr>]\<rparr>)
                      (map cart_to_OrderItem (req_items req)))),
               snd (decrementStock e
                      (d\<lparr>orders := orders d @
                           [(new_order usr req addr ''cod'' None)\<lparr>ord_id := new_order_id e\<rparr>]\<rparr>)
                      (map cart_to_OrderItem (req_items req))))
          \<and> (new_order_id e \<notin> oi_order_id ` set (order_items d) \<longrightarrow>
               filter (\<lambda>i. oi_order_id i = new_order_id e)
                 (order_items (snd (snd (cod_POST e d req)))) = []))"
proof (intro conjI impI)
  assume "razorpay_orders_create e
            (gateway_order_request e usr addr (round (req_total_amount req * 100))) = Some rid"
  from create_order_items_failure[OF assms this]
  show "create_order_POST e d req =
            (\<lparr>status = 200,
              body = CreateOrderOk (new_order_id e) rid (RAZORPAY_KEY_ID e)
                       (round (req_total_amount req * 100)) ''INR''
                       (fullName addr) (user_email usr) (phone addr)\<rparr>,
             None,
             d\<lparr>orders := orders d @
                  [(new_order usr req addr ''razorpay'' (Some rid))\<lparr>ord_id := new_order_id e\<rparr>]\<rparr>)" .
next
  assume lim: "req_total_amount req \<le> 50000"
  note c = cod_order_items_failure[OF assms lim, of d]
  show "fst (cod_POST e d req) =
            \<lparr>status = 200,
             body = CodOk (new_order_id e) ''cod''
                      ''Order placed successfully! Pay on delivery.''\<rparr>"
    by (simp add: c)
  show "orders (snd (snd (cod_POST e d req))) =
              orders d @ [(new_order usr req addr ''cod'' None)\<lparr>ord_id := new_order_id e\<rparr>]"
    by (simp add: c decrementStock_orders)
  show oi: "order_items (snd (snd (cod_POST e d req))) = order_items d"
    by (simp add: c decrementStock_orders)
  show "snd (cod_POST e d req) =
              (Some (fst (decrementStock e
                      (d\<lparr>orders := orders d @
                           [(new_order usr req addr ''cod'' None)\<lparr>ord_id := new_order_id e\<rparr>]\<rparr>)
                      (map cart_to_OrderItem (req_items req)))),
               snd (decrementStock e
                      (d\<lparr>orders := orders d @
                           [(new_order usr req addr ''cod'' None)\<lparr>ord_id := new_order_id e\<rparr>]\<rparr>)
                      (map cart_to_OrderItem (req_items req))))"
    by (simp add: c)
  assume "new_order_id e \<notin> oi_order_id ` set (order_items d)"
  then show "filter (\<lambda>i. oi_order_id i = new_order_id e)
                 (order_items (snd (snd (cod_POST e d req)))) = []"
    by (force simp: oi filter_empty_conv)
qed

theorem order_items_failure_is_not_fatal_witness:
  "auth_user (demo_env\<lparr>db_error := demo_items_error\<rparr>) = Some demo_user
   \<and> passes_validation demo_create_request
   \<and> db_error (demo_env\<lparr>db_error := demo_items_error\<rparr>) InsertOrder = None
   \<and> db_error (demo_env\<lparr>db_error := demo_items_error\<rparr>) InsertOrderItems = Some ''insert failed''
   \<and> create_order_POST (demo_env\<lparr>db_error := demo_items_error\<rparr>) demo_db demo_create_request =
       (\<lparr>status = 200,
         body = CreateOrderOk ''order-2'' ''order_R2'' ''rzp_test_key'' 250000 ''INR''
                  ''A Buyer'' (Some ''a@example.com'') ''1234567890''\<rparr>,
        None,
        demo_db\<lparr>orders := [demo_order, demo_new_order ''razorpay'' (Some ''order_R2'')]\<rparr>)
   \<and> cod_POST (demo_env\<lparr>db_error := demo_items_error\<rparr>) demo_db demo_create_request =
       (\<lparr>status = 200,
         body = CodOk ''order-2'' ''cod'' ''Order placed successfully! Pay on delivery.''\<rparr>,
        Some \<lparr>success = True, errors = [], updatedProducts = [''prod-P'']\<rparr>,
        \<lparr>orders = [demo_order, demo_new_order ''cod'' None],
         order_items = [demo_item_row],
         products =
           [demo_P\<lparr>prod_stock_quantity := Some 3, prod_in_stock := Some True,
                   prod_updated_at := ''2025-01-07T10:00:00.000Z''\<rparr>, demo_Q]\<rparr>)
   \<and> filter (\<lambda>i. oi_order_id i = ''order-2'')
        (order_items (snd (snd (cod_POST (demo_env\<lparr>db_error := demo_items_error\<rparr>) demo_db
           demo_create_request)))) = []"
  using order_items_failure_is_not_fatal
    [where e = "demo_env\<lparr>db_error := demo_items_error\<rparr>" and usr = demo_user
       and req = demo_create_request and addr = demo_address and msg = "''insert failed''"
       and rid = "''order_R2''" and d = demo_db]
  by (simp add: create_defs stock_defs demo_defs demo_create_defs Let_def)

subsection \<open>Webhook and verifier in either order (C5)\<close>

lemma single_map: "single (map f xs) = map_option f (single xs)"
  by (cases xs rule: list.exhaust; simp add: single_def split: list.splits)

lemma select_product_view:
  assumes "db_error e (SelectProduct pid) = None" and "db_error e' (SelectProduct pid) = None"
    and "stock_view d = stock_view d'"
  shows "map_option stock_columns (select_product e d pid) = map_option stock_columns (select_product e' d' pid)"
proof -
  have f: "map stock_columns (filter (\<lambda>p. prod_id p = pid) ps) = filter (\<lambda>v. fst v = pid) (map stock_columns ps)" for ps
    by (induction ps) (simp_all add: stock_columns_def)
  have "map stock_columns (filter (\<lambda>p. prod_id p = pid) (products d))
      = map stock_columns (filter (\<lambda>p. prod_id p = pid) (products d'))"
    using assms(3) by (simp add: f stock_view_def)
  then have "single (map stock_columns (filter (\<lambda>p. prod_id p = pid) (products d)))
      = single (map stock_columns (filter (\<lambda>p. prod_id p = pid) (products d')))"
    by simp
  then show ?thesis
    using assms(1,2) by (simp add: select_product_def single_map)
qed

lemma stock_view_apply_stock:
  "stock_view (apply_stock d pid (write_stock e n b)) =
     map (\<lambda>v. if fst v = pid then (fst v, Some n, Some b) else v) (stock_view d)"
  by (simp add: stock_view_def stock_columns_def apply_stock_def write_stock_def)

lemma decrementStock_loop_stock_view:
  assumes "\<forall>c. db_error e c = None" and "\<forall>c. db_error e' c = None"
    and "stock_view d = stock_view d'"
  shows "stock_view (fst (decrementStock_loop e items d errs upd))
       = stock_view (fst (decrementStock_loop e' items d' errs' upd'))"
  using assms(3)
proof (induction items arbitrary: d d' errs upd errs' upd')
  case Nil
  then show ?case by simp
next
  case (Cons item items)
  let ?pid = "product_id item"
  have okE: "db_error e (SelectProduct ?pid) = None" "db_error e (UpdateProduct ?pid) = None"
    using assms(1) by simp_all
  have okE': "db_error e' (SelectProduct ?pid) = None" "db_error e' (UpdateProduct ?pid) = None"
    using assms(2) by simp_all
  have sel: "map_option stock_columns (select_product e d ?pid) = map_option stock_columns (select_product e' d' ?pid)"
    by (rule select_product_view[OF okE(1) okE'(1) Cons.prems])
  show ?case
  proof (cases "select_product e d ?pid")
    case None
    with sel have None': "select_product e' d' ?pid = None" by simp
    show ?thesis
      unfolding decrementStock_loop_Cons None None' option.case
      by (rule Cons.IH[OF Cons.prems])
  next
    case (Some product)
    with sel obtain product' where Some': "select_product e' d' ?pid = Some product'"
      and same: "stock_columns product = stock_columns product'"
      by (cases "select_product e' d' ?pid") auto
    from same have cur: "current_stock product = current_stock product'"
      by (simp add: stock_columns_def current_stock_def)
    have views: "stock_view (apply_stock d ?pid
                   (write_stock e (max 0 (current_stock product - quantity item))
                      (0 < max 0 (current_stock product - quantity item))))
               = stock_view (apply_stock d' ?pid
                   (write_stock e' (max 0 (current_stock product' - quantity item))
                      (0 < max 0 (current_stock product' - quantity item))))"
      by (simp only: stock_view_apply_stock cur Cons.prems)
    show ?thesis
      unfolding decrementStock_loop_Cons Some Some' okE(2) okE'(2) option.case
      by (rule Cons.IH[OF views])
  qed
qed

lemma decrementStock_stock_view:
  assumes "\<forall>c. db_error e c = None" and "\<forall>c. db_error e' c = None"
    and "stock_view d = stock_view d'"
  shows "stock_view (snd (decrementStock e d items)) = stock_view (snd (decrementStock e' d' items))"
proof -
  have "snd (decrementStock e d items) = fst (decrementStock_loop e items d [] [])" for e d
    by (simp add: decrementStock_def split: prod.splits)
  then show ?thesis
    using decrementStock_loop_stock_view[OF assms] by simp
qed

lemma decrementStock_Nil: "snd (decrementStock e d []) = d"
  by (simp add: decrementStock_def)

lemma stock_view_orders_update [simp]: "stock_view (d\<lparr>orders := os\<rparr>) = stock_view d"
  by (simp add: stock_view_def)

text \<open>The verifier on a valid signature, with every database call succeeding.\<close>

lemma verify_valid_products:
  assumes g: "passes_gates e d req order"
    and np: "ord_payment_status order \<noteq> Some ''paid''"
    and sg: "razorpay_signature req = expected_signature e req"
    and ok: "\<forall>c. db_error e c = None"
  shows "stock_view (snd (snd (verify_payment_POST e d req))) =
     stock_view (snd (decrementStock e d
        (map to_OrderItem (filter (\<lambda>i. oi_order_id i = order_id req) (order_items d)))))"
proof -
  let ?d1 = "d\<lparr>orders := map (\<lambda>r. if ord_id r = order_id req then mark_verified e req r else r) (orders d)\<rparr>"
  let ?its = "map to_OrderItem (filter (\<lambda>i. oi_order_id i = order_id req) (order_items d))"
  have up: "db_error e UpdateOrder = None" and si: "db_error e SelectOrderItems = None"
    using ok by simp_all
  have v: "snd (snd (verify_payment_POST e d req)) =
      (if ?its = [] then ?d1 else snd (decrementStock e ?d1 ?its))"
    using np sg
    by (simp add: verify_after_gates[OF g] update_order_by_id_ok[OF up] select_order_items_def si)
  have "stock_view (snd (decrementStock e ?d1 ?its)) = stock_view (snd (decrementStock e d ?its))"
    by (rule decrementStock_stock_view[OF ok ok]) simp
  then show ?thesis
    by (simp add: v decrementStock_Nil)
qed

lemma captured_event_payload:
  assumes "captured_event e req p"
  obtains payload where "signature_accepted e req" and "json_parse e (raw_body req) = Some payload"
    and "wp_event payload = ''payment.captured'' \<or> wp_event payload = ''order.paid''"
    and "wp_payment payload = Some p"
  using assms by (auto simp: captured_event_def split: option.splits)

lemma webhook_captured:
  assumes ev: "captured_event e req p"
  shows "\<exists>payload. wp_payment payload = Some p \<and>
     snd (snd (webhook_POST e d req)) = snd (handlePaymentCaptured e d payload)"
proof -
  from ev obtain payload where acc: "signature_accepted e req"
    and parse: "json_parse e (raw_body req) = Some payload"
    and event: "wp_event payload = ''payment.captured'' \<or> wp_event payload = ''order.paid''"
    and pay: "wp_payment payload = Some p"
    by (rule captured_event_payload)
  from acc have "header_present req" "secret_configured e"
    by (auto simp: signature_accepted_def header_present_def secret_configured_def
             split: option.splits)
  with acc parse event have "snd (snd (webhook_POST e d req)) = snd (handlePaymentCaptured e d payload)"
    by (simp add: webhook_signature_gate)
  with pay show ?thesis by blast
qed

lemma webhook_captured_unpaid:
  assumes ev: "captured_event e req p"
    and sel: "select_order_by_razorpay_order_id e d (pay_order_id p) = Some order"
    and np: "ord_payment_status order \<noteq> Some ''paid''"
    and ok: "\<forall>c. db_error e c = None"
  shows "orders (snd (snd (webhook_POST e d req))) =
           map (\<lambda>r. if ord_id r = ord_id order then mark_captured e p r else r) (orders d)"
    and "order_items (snd (snd (webhook_POST e d req))) = order_items d"
    and "stock_view (snd (snd (webhook_POST e d req))) =
           stock_view (snd (decrementStock e d
             (map to_OrderItem (filter (\<lambda>i. oi_order_id i = ord_id order) (order_items d)))))"
proof -
  let ?d1 = "d\<lparr>orders := map (\<lambda>r. if ord_id r = ord_id order then mark_captured e p r else r) (orders d)\<rparr>"
  let ?its = "map to_OrderItem (filter (\<lambda>i. oi_order_id i = ord_id order) (order_items d))"
  have up: "db_error e UpdateOrder = None" and si: "db_error e SelectOrderItems = None"
    using ok by simp_all
  from webhook_captured[OF ev, of d] obtain payload where pay: "wp_payment payload = Some p"
    and w: "snd (snd (webhook_POST e d req)) = snd (handlePaymentCaptured e d payload)"
    by blast
  have h: "snd (handlePaymentCaptured e d payload) =
      (if ?its = [] then ?d1 else snd (decrementStock e ?d1 ?its))"
    using np by (simp add: handlePaymentCaptured_found[OF pay sel] up select_order_items_def si)
  show "orders (snd (snd (webhook_POST e d req))) =
           map (\<lambda>r. if ord_id r = ord_id order then mark_captured e p r else r) (orders d)"
    by (simp add: w h decrementStock_orders)
  show "order_items (snd (snd (webhook_POST e d req))) = order_items d"
    by (simp add: w h decrementStock_orders)
  have "stock_view (snd (decrementStock e ?d1 ?its)) = stock_view (snd (decrementStock e d ?its))"
    by (rule decrementStock_stock_view[OF ok ok]) simp
  then show "stock_view (snd (snd (webhook_POST e d req))) = stock_view (snd (decrementStock e d ?its))"
    by (simp add: w h decrementStock_Nil)
qed

lemma webhook_captured_paid:
  assumes ev: "captured_event e req p"
    and sel: "select_order_by_razorpay_order_id e d (pay_order_id p) = Some order"
    and paid: "ord_payment_status order = Some ''paid''"
  shows "snd (snd (webhook_POST e d req)) = d"
proof -
  from webhook_captured[OF ev, of d] obtain payload where pay: "wp_payment payload = Some p"
    and w: "snd (snd (webhook_POST e d req)) = snd (handlePaymentCaptured e d payload)"
    by blast
  show ?thesis using paid by (simp add: w handlePaymentCaptured_found[OF pay sel])
qed

lemma passes_gates_after_update:
  assumes g: "passes_gates e d req order"
    and rows1: "rows_with_id d1 (order_id req) = [f order]"
    and se: "db_error e SelectOrder = None"
    and keep: "ord_user_id (f order) = ord_user_id order"
      "ord_razorpay_order_id (f order) = ord_razorpay_order_id order"
  shows "passes_gates e d1 req (f order)"
proof -
  have "select_order_by_id e d1 (order_id req) = Some (f order)"
    using rows1 se by (simp add: select_order_by_id_def rows_with_id_def single_def)
  then show ?thesis
    using g keep by (simp add: passes_gates_def split: option.splits)
qed

lemma rows_with_id_orders:
  "orders d1 = map (\<lambda>r. if ord_id r = oid then f r else r) (orders d) \<Longrightarrow>
   rows_with_id d oid = [order] \<Longrightarrow> (\<And>r. ord_id (f r) = ord_id r) \<Longrightarrow>
   rows_with_id d1 oid = [f order]"
  using rows_with_id_update[of d oid order f] by (simp add: rows_with_id_def)

lemma webhook_then_verify:
  assumes g: "passes_gates eV d vreq order"
    and np: "ord_payment_status order \<noteq> Some ''paid''"
    and ev: "captured_event eW wreq p"
    and sel: "select_order_by_razorpay_order_id eW d (pay_order_id p) = Some order"
    and okW: "\<forall>c. db_error eW c = None"
  shows "run_calls [WebhookCall eW wreq, VerifyCall eV vreq] d = snd (snd (webhook_POST eW d wreq))"
    and "rows_with_id (snd (snd (webhook_POST eW d wreq))) (order_id vreq) = [mark_captured eW p order]"
proof -
  let ?dW = "snd (snd (webhook_POST eW d wreq))"
  have rows: "rows_with_id d (order_id vreq) = [order]" and se: "db_error eV SelectOrder = None"
    using passes_gates_rows[OF g] by simp_all
  have oid: "ord_id order = order_id vreq"
    using rows_with_id_single[OF rows] by simp
  have ordersW: "orders ?dW =
      map (\<lambda>r. if ord_id r = order_id vreq then mark_captured eW p r else r) (orders d)"
    using webhook_captured_unpaid(1)[OF ev sel np okW] by (simp add: oid)
  show rowsW: "rows_with_id ?dW (order_id vreq) = [mark_captured eW p order]"
    by (rule rows_with_id_orders[where f = "mark_captured eW p", OF ordersW rows]) simp
  have gW: "passes_gates eV ?dW vreq (mark_captured eW p order)"
    by (rule passes_gates_after_update[where f = "mark_captured eW p", OF g rowsW se])
       (simp_all add: mark_captured_def)
  have "verify_payment_POST eV ?dW vreq =
     (\<lparr>status = 200, body = VerifyOk ''Payment already verified'' (order_id vreq)\<rparr>, None, ?dW)"
    by (rule verify_paid_short_circuit[OF gW]) (simp add: mark_captured_def)
  then show "run_calls [WebhookCall eW wreq, VerifyCall eV vreq] d = ?dW"
    by simp
qed

lemma verify_then_webhook:
  assumes g: "passes_gates eV d vreq order"
    and np: "ord_payment_status order \<noteq> Some ''paid''"
    and sg: "razorpay_signature vreq = expected_signature eV vreq"
    and ev: "captured_event eW wreq p"
    and sel: "select_order_by_razorpay_order_id eW d (pay_order_id p) = Some order"
    and okV: "\<forall>c. db_error eV c = None"
  shows "run_calls [VerifyCall eV vreq, WebhookCall eW wreq] d = snd (snd (verify_payment_POST eV d vreq))"
proof -
  let ?dV = "snd (snd (verify_payment_POST eV d vreq))"
  have up: "db_error eV UpdateOrder = None" using okV by simp
  have rows: "rows_with_id d (order_id vreq) = [order]"
    using passes_gates_rows[OF g] by simp
  have oid: "ord_id order = order_id vreq"
    using rows_with_id_single[OF rows] by simp
  have ordersV: "orders ?dV =
      map (\<lambda>r. if ord_id r = order_id vreq then mark_verified eV vreq r else r) (orders d)"
    by (rule verify_valid_result(4)[OF g np sg up])
  have fl: "filter (\<lambda>r. ord_razorpay_order_id r = Some (pay_order_id p)) (orders d) = [order]"
    and seW: "db_error eW SelectOrder = None"
    using select_order_by_razorpay_order_id_Some(3,4)[OF sel] by simp_all
  have "filter (\<lambda>r. ord_razorpay_order_id r = Some (pay_order_id p)) (orders ?dV) =
      map (\<lambda>r. if ord_id r = order_id vreq then mark_verified eV vreq r else r)
        (filter (\<lambda>r. ord_razorpay_order_id r = Some (pay_order_id p)) (orders d))"
    unfolding ordersV by (rule filter_map_if) (simp add: mark_verified_def)
  then have "filter (\<lambda>r. ord_razorpay_order_id r = Some (pay_order_id p)) (orders ?dV) =
      [mark_verified eV vreq order]"
    by (simp add: fl oid)
  then have selV: "select_order_by_razorpay_order_id eW ?dV (pay_order_id p) =
      Some (mark_verified eV vreq order)"
    using seW by (simp add: select_order_by_razorpay_order_id_def single_def)
  have "snd (snd (webhook_POST eW ?dV wreq)) = ?dV"
    by (rule webhook_captured_paid[OF ev selV]) (simp add: mark_verified_def)
  then show ?thesis by simp
qed

text \<open>
  C5. Take a pending order, a verify request for it that passes the gates with a valid
  signature, and a validly signed captured event whose gateway order id finds that order,
  with every database call succeeding. Running webhook then verifier, and verifier then
  webhook, both leave the order with \<open>payment_status = paid\<close> and \<open>status = processing\<close>;
  the two final databases agree on the payment columns of every order and on the stock
  columns of every product, and the stock is that of one run of \<open>decrementStock\<close> over
  the order's items on the initial database.
\<close>

theorem out_of_order_convergence:
  assumes "passes_gates eV d vreq order"
    and "ord_payment_status order = Some ''pending''"
    and "razorpay_signature vreq = expected_signature eV vreq"
    and "captured_event eW wreq p"
    and "select_order_by_razorpay_order_id eW d (pay_order_id p) = Some order"
    and "\<forall>c. db_error eV c = None"
    and "\<forall>c. db_error eW c = None"
  shows "map ord_payment_status
           (rows_with_id (run_calls [WebhookCall eW wreq, VerifyCall eV vreq] d) (order_id vreq))
           = [Some ''paid'']
     \<and> map ord_status
           (rows_with_id (run_calls [WebhookCall eW wreq, VerifyCall eV vreq] d) (order_id vreq))
           = [Some ''processing'']
     \<and> map ord_payment_status
           (rows_with_id (run_calls [VerifyCall eV vreq, WebhookCall eW wreq] d) (order_id vreq))
           = [Some ''paid'']
     \<and> map ord_status
           (rows_with_id (run_calls [VerifyCall eV vreq, WebhookCall eW wreq] d) (order_id vreq))
           = [Some ''processing'']
     \<and> payment_view (run_calls [WebhookCall eW wreq, VerifyCall eV vreq] d)
         = payment_view (run_calls [VerifyCall eV vreq, WebhookCall eW wreq] d)
     \<and> stock_view (run_calls [WebhookCall eW wreq, VerifyCall eV vreq] d)
         = stock_view (run_calls [VerifyCall eV vreq, WebhookCall eW wreq] d)
     \<and> stock_view (run_calls [WebhookCall eW wreq, VerifyCall eV vreq] d)
         = stock_view (snd (decrementStock eW d
             (map to_OrderItem
                (filter (\<lambda>i. oi_order_id i = order_id vreq) (order_items d)))))"
proof -
  let ?its = "map to_OrderItem (filter (\<lambda>i. oi_order_id i = order_id vreq) (order_items d))"
  let ?dW = "snd (snd (webhook_POST eW d wreq))"
  let ?dV = "snd (snd (verify_payment_POST eV d vreq))"
  have np: "ord_payment_status order \<noteq> Some ''paid''" using assms(2) by simp
  have up: "db_error eV UpdateOrder = None" using assms(6) by simp
  have rows: "rows_with_id d (order_id vreq) = [order]"
    using passes_gates_rows[OF assms(1)] by simp
  have oid: "ord_id order = order_id vreq"
    using rows_with_id_single[OF rows] by simp
  have WV: "run_calls [WebhookCall eW wreq, VerifyCall eV vreq] d = ?dW"
    and rowsW: "rows_with_id ?dW (order_id vreq) = [mark_captured eW p order]"
    using webhook_then_verify[OF assms(1) np assms(4,5,7)] by simp_all
  have VW: "run_calls [VerifyCall eV vreq, WebhookCall eW wreq] d = ?dV"
    by (rule verify_then_webhook[OF assms(1) np assms(3,4,5,6)])
  have rowsV: "rows_with_id ?dV (order_id vreq) = [mark_verified eV vreq order]"
    by (rule verify_valid_result(2)[OF assms(1) np assms(3) up])
  have ordersW: "orders ?dW =
      map (\<lambda>r. if ord_id r = order_id vreq then mark_captured eW p r else r) (orders d)"
    using webhook_captured_unpaid(1)[OF assms(4,5) np assms(7)] by (simp add: oid)
  have ordersV: "orders ?dV =
      map (\<lambda>r. if ord_id r = order_id vreq then mark_verified eV vreq r else r) (orders d)"
    by (rule verify_valid_result(4)[OF assms(1) np assms(3) up])
  have pv: "payment_view ?dW = payment_view ?dV"
    by (simp add: payment_view_def ordersW ordersV mark_captured_def mark_verified_def)
  have stW: "stock_view ?dW = stock_view (snd (decrementStock eW d ?its))"
    using webhook_captured_unpaid(3)[OF assms(4,5) np assms(7)] by (simp add: oid)
  have stV: "stock_view ?dV = stock_view (snd (decrementStock eV d ?its))"
    by (rule verify_valid_products[OF assms(1) np assms(3,6)])
  have "stock_view (snd (decrementStock eW d ?its)) = stock_view (snd (decrementStock eV d ?its))"
    by (rule decrementStock_stock_view[OF assms(7,6)]) simp
  with stW stV have st: "stock_view ?dW = stock_view ?dV" by simp
  show ?thesis
    unfolding WV VW
    using pv st stW by (simp add: rowsW rowsV mark_captured_def mark_verified_def)
qed

theorem out_of_order_convergence_witness:
  "passes_gates demo_env demo_db demo_verify_request demo_order
   \<and> ord_payment_status demo_order = Some ''pending''
   \<and> razorpay_signature demo_verify_request = expected_signature demo_env demo_verify_request
   \<and> captured_event demo_env (demo_webhook_request ''captured'') demo_payment
   \<and> select_order_by_razorpay_order_id demo_env demo_db (pay_order_id demo_payment)
        = Some demo_order
   \<and> (\<forall>c. db_error demo_env c = None)
   \<and> payment_view (run_calls [WebhookCall demo_env (demo_webhook_request ''captured''),
                               VerifyCall demo_env demo_verify_request] demo_db)
        = [(''order-1'', Some ''paid'', Some ''processing'')]
   \<and> payment_view (run_calls [VerifyCall demo_env demo_verify_request,
                               WebhookCall demo_env (demo_webhook_request ''captured'')] demo_db)
        = [(''order-1'', Some ''paid'', Some ''processing'')]
   \<and> stock_view (run_calls [WebhookCall demo_env (demo_webhook_request ''captured''),
                             VerifyCall demo_env demo_verify_request] demo_db)
        = [(''prod-P'', Some 3, Some True), (''prod-Q'', Some 0, Some False)]
   \<and> stock_view (run_calls [VerifyCall demo_env demo_verify_request,
                             WebhookCall demo_env (demo_webhook_request ''captured'')] demo_db)
        = [(''prod-P'', Some 3, Some True), (''prod-Q'', Some 0, Some False)]"
  using out_of_order_convergence
    [where eV = demo_env and eW = demo_env and d = demo_db and vreq = demo_verify_request
       and order = demo_order and wreq = "demo_webhook_request ''captured''"
       and p = demo_payment]
  by (simp add: verify_defs webhook_defs stock_defs demo_defs demo_request_defs
        demo_webhook_defs payment_view_def stock_view_def stock_columns_def)

text \<open>
  The two orders of arrival agree on the payment columns and on the stock, not on every
  column: the verifier stores the submitted signature, the webhook stores the payment
  method and its own metadata, and whichever runs second writes nothing.
\<close>

lemma orderings_differ_in_other_columns:
  "map ord_razorpay_signature
     (orders (run_calls [WebhookCall demo_env (demo_webhook_request ''captured''),
                         VerifyCall demo_env demo_verify_request] demo_db)) = [None]
   \<and> map ord_razorpay_signature
     (orders (run_calls [VerifyCall demo_env demo_verify_request,
                         WebhookCall demo_env (demo_webhook_request ''captured'')] demo_db))
       = [Some ''key-secret#order_R1|pay_1'']
   \<and> map ord_payment_method
     (orders (run_calls [WebhookCall demo_env (demo_webhook_request ''captured''),
                         VerifyCall demo_env demo_verify_request] demo_db)) = [Some ''upi'']
   \<and> map ord_payment_method
     (orders (run_calls [VerifyCall demo_env demo_verify_request,
                         WebhookCall demo_env (demo_webhook_request ''captured'')] demo_db))
       = [Some ''razorpay'']"
  by (simp add: verify_defs webhook_defs stock_defs demo_defs demo_request_defs
        demo_webhook_defs)

end
